theory Spec2Isabelle
  imports Complex_Main "HOL-Library.Word"
begin

unbundle bit_operations_syntax

section \<open>Memory-mapped registers and the bus\<close>

text \<open>
  The file \<^verbatim>\<open>ion/platform/device/display.c\<close> drives the display through memory-mapped
  registers. The registers it names are the constructors of \<open>reg\<close>; a register macro with
  arguments (\<^verbatim>\<open>GPIO_ODR(GPIOC)\<close>, \<^verbatim>\<open>SPI_SR(SPI5)\<close>, \<^verbatim>\<open>LTDC_LPFCR(LTDC_LAYER1)\<close>) is a
  constructor with arguments.
\<close>

datatype gpio_group = GPIOA | GPIOB | GPIOC | GPIOD | GPIOF | GPIOG

datatype spi_port = SPI5

datatype ltdc_layer = LTDC_LAYER1

datatype reg =
    RCC_AHB1ENR | RCC_APB2ENR | RCC_PLLSAICFGR | RCC_DCKCFGR | RCC_CR
  | GPIO_MODER gpio_group | GPIO_AFR gpio_group nat | GPIO_ODR gpio_group
  | SPI_CR1 spi_port | SPI_SR spi_port | SPI_DR spi_port
  | LTDC_SSCR | LTDC_BPCR | LTDC_AWCR | LTDC_TWCR | LTDC_GCR | LTDC_BCCR | LTDC_SRCR
  | LTDC_LWHPCR ltdc_layer | LTDC_LWVPCR ltdc_layer | LTDC_LPFCR ltdc_layer
  | LTDC_LCFBAR ltdc_layer | LTDC_LCFBLR ltdc_layer | LTDC_LCFBLNR ltdc_layer
  | LTDC_LCR ltdc_layer

text \<open>
  Every access to a register is a bus access, and the state keeps them all, oldest first:
  \<open>Rd r v\<close> is a read of \<open>r\<close> that returned \<open>v\<close>, \<open>Wr r v\<close> a write of \<open>v\<close> to \<open>r\<close>.
  \<open>regs\<close> holds the value last written to each register.
\<close>

datatype event = Rd reg "32 word" | Wr reg "32 word"

record hw =
  regs :: "reg \<Rightarrow> 32 word"
  bus :: "event list"

text \<open>
  The registers are volatile: what a read returns is the hardware's choice. A device
  \<open>dev n r v\<close> gives the value returned by a read of \<open>r\<close> that is the bus access number \<open>n\<close>
  (counted from 0), when \<open>v\<close> is the value last written to \<open>r\<close>. A register that is plain
  memory returns \<open>v\<close>; a status flag set by the hardware depends on \<open>n\<close>.
\<close>

type_synonym device = "nat \<Rightarrow> reg \<Rightarrow> 32 word \<Rightarrow> 32 word"

definition reg_value :: "device \<Rightarrow> reg \<Rightarrow> hw \<Rightarrow> 32 word" where
  "reg_value dev r s = dev (length (bus s)) r (regs s r)"

definition reg_read :: "device \<Rightarrow> reg \<Rightarrow> hw \<Rightarrow> hw" where
  "reg_read dev r s = s\<lparr>bus := bus s @ [Rd r (reg_value dev r s)]\<rparr>"

definition reg_write :: "reg \<Rightarrow> 32 word \<Rightarrow> hw \<Rightarrow> hw" where
  "reg_write r v s = s\<lparr>regs := (regs s)(r := v), bus := bus s @ [Wr r v]\<rparr>"

text \<open>The C statement \<^verbatim>\<open>reg |= bits\<close>: one read, then one write.\<close>

definition reg_or :: "device \<Rightarrow> reg \<Rightarrow> 32 word \<Rightarrow> hw \<Rightarrow> hw" where
  "reg_or dev r bits s = reg_write r (reg_value dev r s OR bits) (reg_read dev r s)"

section \<open>The header\<close>

text \<open>
  The masks, the field macros and the frame buffer constants come from
  \<^verbatim>\<open>registers/registers.h\<close>, \<^verbatim>\<open>platform.h\<close> and \<^verbatim>\<open>ion.h\<close>, which are not part of the sources
  at hand. The routines take them as a parameter, the \<open>header\<close>: \<open>cst\<close> gives the value
  of a mask or of an encoded constant, \<open>macro\<close> the value a field macro such as
  \<^verbatim>\<open>LTDC_HSW(x)\<close> computes from its argument, \<open>field_range\<close> the lowest and the highest bit
  of a named register field.
\<close>

datatype constant_name =
    LTDCEN | PLLSAION | PLLON | PLLSAIRDY | PLLRDY | RCC_PLLSAIDIVR_DIV8
  | LTDC_PCPOL | LTDC_PF_L8 | LTDC_LEN | LTDC_IMR | LTDC_LTDCEN
  | SPI_BSY | SPI_TXE

datatype macro_name =
    LTDC_VSH | LTDC_HSW | LTDC_AVBP | LTDC_AHBP | LTDC_AAH | LTDC_AAW
  | LTDC_TOTALH | LTDC_TOTALW
  | LTDC_WHSTPOS | LTDC_WHSPPOS | LTDC_WVSTPOS | LTDC_WVSPPOS
  | LTDC_CFBLL | LTDC_CFBP | LTDC_CFBLNR

datatype field_name = PLLSAIN | PLLSAIR | PLLSAIDIVR

record header =
  cst :: "constant_name \<Rightarrow> 32 word"
  macro :: "macro_name \<Rightarrow> int \<Rightarrow> 32 word"
  field_range :: "field_name \<Rightarrow> nat \<times> nat"
  ION_FRAMEBUFFER_WIDTH :: int
  ION_FRAMEBUFFER_HEIGHT :: int
  ION_FRAMEBUFFER_ADDRESS :: "32 word"

text \<open>
  Modelled from the spec: \<^verbatim>\<open>REGISTER_SET_VALUE(reg, field, value)\<close> and the field
  descriptor \<^verbatim>\<open>ODR(n)\<close> are macros of \<^verbatim>\<open>registers/registers.h\<close>, which is missing. The spec
  has the chip-select and the mode-select operation each drive one line from a boolean
  (4.5) and lets a programming step have no side effect beyond its target (4.1): the macro
  is the read-modify-write that clears the bits \<open>lo..hi\<close> of the field in the value it
  reads, puts \<open>value\<close> there and writes the result back, and \<^verbatim>\<open>ODR(n)\<close> is the one-bit field
  at bit \<open>n\<close> of an output data register.
\<close>

definition field_mask :: "nat \<times> nat \<Rightarrow> 32 word" where
  "field_mask f = push_bit (fst f) (mask (Suc (snd f) - fst f))"

definition REGISTER_SET_VALUE :: "device \<Rightarrow> reg \<Rightarrow> nat \<times> nat \<Rightarrow> 32 word \<Rightarrow> hw \<Rightarrow> hw" where
  "REGISTER_SET_VALUE dev r f v s =
     reg_write r ((reg_value dev r s AND NOT (field_mask f)) OR push_bit (fst f) v)
       (reg_read dev r s)"

definition ODR :: "nat \<Rightarrow> nat \<times> nat" where
  "ODR n = (n, n)"

section \<open>The RGB clocks\<close>

text \<open>
  The wait at the end of \<^verbatim>\<open>init_rgb_clocks\<close>:
  \<^verbatim>\<open>while ((RCC_CR & PLLSAIRDY) == 0 || (RCC_CR & PLLRDY) == 0) { }\<close>.
  Each test reads \<^verbatim>\<open>RCC_CR\<close>, and \<^verbatim>\<open>||\<close> skips the second read when the first test holds.
  The loop has no bound, so the wait is a partial function: \<open>None\<close> is a wait that never
  ends.
\<close>

partial_function (option) pll_wait :: "header \<Rightarrow> device \<Rightarrow> hw \<Rightarrow> hw option" where
  "pll_wait m dev s =
    (if reg_value dev RCC_CR s AND cst m PLLSAIRDY = 0
       then pll_wait m dev (reg_read dev RCC_CR s)
     else if reg_value dev RCC_CR (reg_read dev RCC_CR s) AND cst m PLLRDY = 0
       then pll_wait m dev (reg_read dev RCC_CR (reg_read dev RCC_CR s))
     else Some (reg_read dev RCC_CR (reg_read dev RCC_CR s)))"

definition init_rgb_clocks :: "header \<Rightarrow> device \<Rightarrow> hw \<Rightarrow> hw option" where
  "init_rgb_clocks m dev s0 =
    (let s1 = reg_or dev RCC_APB2ENR (cst m LTDCEN) s0;
         s2 = REGISTER_SET_VALUE dev RCC_PLLSAICFGR (field_range m PLLSAIN) 192 s1;
         s3 = REGISTER_SET_VALUE dev RCC_PLLSAICFGR (field_range m PLLSAIR) 4 s2;
         s4 = REGISTER_SET_VALUE dev RCC_DCKCFGR (field_range m PLLSAIDIVR)
                (cst m RCC_PLLSAIDIVR_DIV8) s3;
         s5 = reg_or dev RCC_CR (cst m PLLSAION OR cst m PLLON) s4
     in pll_wait m dev s5)"

text \<open>
  A clock plan, with the names of the spec. The bounds are those of the comment in
  \<^verbatim>\<open>init_rgb_clocks\<close>: \<^verbatim>\<open>49 <= PLLSAIN <= 432\<close>, \<^verbatim>\<open>2 <= PLLSAIR <= 7\<close>,
  \<^verbatim>\<open>2 <= PLLSAIDIVR <= 16\<close> as a power of two.
\<close>

record ClockPlan =
  target :: real
  input :: real
  multiplier :: int
  post_divider :: int
  output_divider :: int

definition plan_in_bounds :: "ClockPlan \<Rightarrow> bool" where
  "plan_in_bounds p \<longleftrightarrow>
     49 \<le> multiplier p \<and> multiplier p \<le> 432 \<and>
     2 \<le> post_divider p \<and> post_divider p \<le> 7 \<and>
     (output_divider p = 2 \<or> output_divider p = 4 \<or> output_divider p = 8
        \<or> output_divider p = 16)"

text \<open>
  \<^verbatim>\<open>init_rgb_clocks()\<close> has no parameter: whatever plan its caller has in mind, the
  routine that runs is the same.
\<close>

definition clock_engine :: "ClockPlan \<Rightarrow> header \<Rightarrow> device \<Rightarrow> hw \<Rightarrow> hw option" where
  "clock_engine p m dev s = init_rgb_clocks m dev s"

text \<open>
  The plan the routine stands for: the stage values are the ones it writes, 192 to
  \<^verbatim>\<open>PLLSAIN\<close>, 4 to \<^verbatim>\<open>PLLSAIR\<close> and \<^verbatim>\<open>RCC_PLLSAIDIVR_DIV8\<close> to \<^verbatim>\<open>PLLSAIDIVR\<close>; the input of
  16 MHz and the target of 6 MHz are those its comment names.
\<close>

definition rgb_clock_plan :: ClockPlan where
  "rgb_clock_plan =
     \<lparr>target = 6, input = 16, multiplier = 192, post_divider = 4, output_divider = 8\<rparr>"

text \<open>
  The formula of the output clock in the words of the spec:
  \<open>input * multiplier / (post_divider * output_divider)\<close>.
\<close>

definition spec_output_clock :: "ClockPlan \<Rightarrow> real" where
  "spec_output_clock p =
     input p * of_int (multiplier p) / (of_int (post_divider p) * of_int (output_divider p))"

text \<open>
  The stages a run has programmed are read back from the registers. \<open>field_value\<close> is the
  content of a field of a register value. The output divider is known by the name of its
  code: \<^verbatim>\<open>RCC_PLLSAIDIVR_DIV8\<close> divides by 8, the only code the source uses. The input and
  the target are no register's content and are given.
\<close>

definition field_value :: "nat \<times> nat \<Rightarrow> 32 word \<Rightarrow> 32 word" where
  "field_value f w = drop_bit (fst f) (w AND field_mask f)"

definition programmed_plan :: "real \<Rightarrow> real \<Rightarrow> header \<Rightarrow> hw \<Rightarrow> ClockPlan" where
  "programmed_plan tgt inp m s =
     \<lparr>target = tgt, input = inp,
      multiplier = uint (field_value (field_range m PLLSAIN) (regs s RCC_PLLSAICFGR)),
      post_divider = uint (field_value (field_range m PLLSAIR) (regs s RCC_PLLSAICFGR)),
      output_divider =
        (if field_value (field_range m PLLSAIDIVR) (regs s RCC_DCKCFGR)
              = cst m RCC_PLLSAIDIVR_DIV8
         then 8 else 0)\<rparr>"

text \<open>
  A header lays the three fields out well when each lies within the 32 bits, \<^verbatim>\<open>PLLSAIN\<close>
  has room for 192 and \<^verbatim>\<open>PLLSAIR\<close> for 4, the two do not overlap in the register they
  share, and the code of \<^verbatim>\<open>RCC_PLLSAIDIVR_DIV8\<close> fits \<^verbatim>\<open>PLLSAIDIVR\<close>.
\<close>

definition fields_laid_out :: "header \<Rightarrow> bool" where
  "fields_laid_out m \<longleftrightarrow>
     fst (field_range m PLLSAIN) + 7 \<le> snd (field_range m PLLSAIN) \<and>
     snd (field_range m PLLSAIN) < 32 \<and>
     fst (field_range m PLLSAIR) + 2 \<le> snd (field_range m PLLSAIR) \<and>
     snd (field_range m PLLSAIR) < 32 \<and>
     (snd (field_range m PLLSAIN) < fst (field_range m PLLSAIR) \<or>
      snd (field_range m PLLSAIR) < fst (field_range m PLLSAIN)) \<and>
     fst (field_range m PLLSAIDIVR) \<le> snd (field_range m PLLSAIDIVR) \<and>
     snd (field_range m PLLSAIDIVR) < 32 \<and>
     take_bit (Suc (snd (field_range m PLLSAIDIVR)) - fst (field_range m PLLSAIDIVR))
       (cst m RCC_PLLSAIDIVR_DIV8) = cst m RCC_PLLSAIDIVR_DIV8"

section \<open>The RGB timings and the layer\<close>

text \<open>
  The eight local variables of \<^verbatim>\<open>init_rgb_timings\<close> are C \<^verbatim>\<open>int\<close>s, of 32 bits on this
  target, and so are the sums the routine makes of them. \<open>c_int x\<close> is the value a 32-bit
  \<^verbatim>\<open>int\<close> holds for a sum whose exact value is \<open>x\<close>: \<open>x\<close> itself from \<open>-2^31\<close> to \<open>2^31 - 1\<close>;
  beyond, the sum overflows and the two's complement arithmetic of the target wraps it
  around. Wrapping after each addition or once at the end gives the same value.
\<close>

definition c_int :: "int \<Rightarrow> int" where
  "c_int x = (x + 2147483648) mod 4294967296 - 2147483648"

record timing =
  lcd_panel_hsync :: int
  lcd_panel_hbp :: int
  lcd_panel_hadr :: int
  lcd_panel_hfp :: int
  lcd_panel_vsync :: int
  lcd_panel_vbp :: int
  lcd_panel_vadr :: int
  lcd_panel_vfp :: int

definition lcd_panel :: "header \<Rightarrow> timing" where
  "lcd_panel m =
     \<lparr>lcd_panel_hsync = 10, lcd_panel_hbp = 20, lcd_panel_hadr = ION_FRAMEBUFFER_WIDTH m,
      lcd_panel_hfp = 10, lcd_panel_vsync = 2, lcd_panel_vbp = 2,
      lcd_panel_vadr = ION_FRAMEBUFFER_HEIGHT m, lcd_panel_vfp = 4\<rparr>"

text \<open>
  The body of \<^verbatim>\<open>init_rgb_timings\<close> over its local variables. It has no loop and always
  returns.
\<close>

definition rgb_timings :: "header \<Rightarrow> timing \<Rightarrow> device \<Rightarrow> hw \<Rightarrow> hw" where
  "rgb_timings m t dev s0 =
    (let s1 = reg_write LTDC_SSCR
                (macro m LTDC_VSH (c_int (lcd_panel_vsync t - 1)) OR
                 macro m LTDC_HSW (c_int (lcd_panel_hsync t - 1))) s0;
         s2 = reg_write LTDC_BPCR
                (macro m LTDC_AVBP (c_int (lcd_panel_vsync t + lcd_panel_vbp t - 1)) OR
                 macro m LTDC_AHBP (c_int (lcd_panel_hsync t + lcd_panel_hbp t - 1))) s1;
         s3 = reg_write LTDC_AWCR
                (macro m LTDC_AAH (c_int (lcd_panel_vsync t + lcd_panel_vbp t + lcd_panel_vadr t - 1)) OR
                 macro m LTDC_AAW (c_int (lcd_panel_hsync t + lcd_panel_hbp t + lcd_panel_hadr t - 1))) s2;
         s4 = reg_write LTDC_TWCR
                (macro m LTDC_TOTALH
                   (c_int (lcd_panel_vsync t + lcd_panel_vbp t + lcd_panel_vadr t + lcd_panel_vfp t - 1)) OR
                 macro m LTDC_TOTALW
                   (c_int (lcd_panel_hsync t + lcd_panel_hbp t + lcd_panel_hadr t + lcd_panel_hfp t - 1))) s3;
         s5 = reg_or dev LTDC_GCR (cst m LTDC_PCPOL) s4;
         s6 = reg_write LTDC_BCCR 0x00FF00FF s5;
         s7 = reg_write (LTDC_LWHPCR LTDC_LAYER1)
                (macro m LTDC_WHSTPOS (c_int (lcd_panel_hsync t + lcd_panel_hbp t)) OR
                 macro m LTDC_WHSPPOS (c_int (lcd_panel_hsync t + lcd_panel_hbp t + lcd_panel_hadr t - 1))) s6;
         s8 = reg_write (LTDC_LWVPCR LTDC_LAYER1)
                (macro m LTDC_WVSTPOS (c_int (lcd_panel_vsync t + lcd_panel_vbp t)) OR
                 macro m LTDC_WVSPPOS (c_int (lcd_panel_vsync t + lcd_panel_vbp t + lcd_panel_vadr t - 1))) s7;
         s9 = reg_write (LTDC_LPFCR LTDC_LAYER1) (cst m LTDC_PF_L8) s8;
         s10 = reg_write (LTDC_LCFBAR LTDC_LAYER1) (ION_FRAMEBUFFER_ADDRESS m) s9;
         s11 = reg_write (LTDC_LCFBLR LTDC_LAYER1)
                 (macro m LTDC_CFBLL (ION_FRAMEBUFFER_WIDTH m + 3) OR
                  macro m LTDC_CFBP (ION_FRAMEBUFFER_WIDTH m)) s10;
         s12 = reg_write (LTDC_LCFBLNR LTDC_LAYER1)
                 (macro m LTDC_CFBLNR (ION_FRAMEBUFFER_HEIGHT m)) s11;
         s13 = reg_write (LTDC_LCR LTDC_LAYER1) (cst m LTDC_LEN) s12;
         s14 = reg_write LTDC_SRCR (cst m LTDC_IMR) s13
     in reg_or dev LTDC_GCR (cst m LTDC_LTDCEN) s14)"

definition init_rgb_timings :: "header \<Rightarrow> device \<Rightarrow> hw \<Rightarrow> hw" where
  "init_rgb_timings m dev s = rgb_timings m (lcd_panel m) dev s"

section \<open>The panel's control channel\<close>

text \<open>
  The two waits of \<^verbatim>\<open>spi_5_write\<close>: \<^verbatim>\<open>while (SPI_SR(SPI5) & SPI_BSY) { }\<close> and
  \<^verbatim>\<open>while (!(SPI_SR(SPI5) & SPI_TXE)) { }\<close>. Neither has a bound.
\<close>

partial_function (option) spi_wait_bsy :: "header \<Rightarrow> device \<Rightarrow> hw \<Rightarrow> hw option" where
  "spi_wait_bsy m dev s =
    (if reg_value dev (SPI_SR SPI5) s AND cst m SPI_BSY \<noteq> 0
       then spi_wait_bsy m dev (reg_read dev (SPI_SR SPI5) s)
     else Some (reg_read dev (SPI_SR SPI5) s))"

partial_function (option) spi_wait_txe :: "header \<Rightarrow> device \<Rightarrow> hw \<Rightarrow> hw option" where
  "spi_wait_txe m dev s =
    (if reg_value dev (SPI_SR SPI5) s AND cst m SPI_TXE = 0
       then spi_wait_txe m dev (reg_read dev (SPI_SR SPI5) s)
     else Some (reg_read dev (SPI_SR SPI5) s))"

text \<open>
  The \<^verbatim>\<open>for\<close> loop over \<^verbatim>\<open>data[0..size-1]\<close>: the byte goes to the data register, then the
  routine waits for \<^verbatim>\<open>SPI_TXE\<close>. The buffer is the list of its bytes (\<^verbatim>\<open>char\<close> is unsigned
  on this target).
\<close>

fun spi_5_send :: "header \<Rightarrow> device \<Rightarrow> 8 word list \<Rightarrow> hw \<Rightarrow> hw option" where
  "spi_5_send m dev [] s = Some s"
| "spi_5_send m dev (b # bs) s =
     (case spi_wait_txe m dev (reg_write (SPI_DR SPI5) (ucast b) s) of
        None \<Rightarrow> None
      | Some s' \<Rightarrow> spi_5_send m dev bs s')"

definition spi_5_write :: "header \<Rightarrow> device \<Rightarrow> 8 word list \<Rightarrow> hw \<Rightarrow> hw option" where
  "spi_5_write m dev data s =
     (case spi_wait_bsy m dev s of
        None \<Rightarrow> None
      | Some s1 \<Rightarrow>
          (case spi_5_send m dev data s1 of
             None \<Rightarrow> None
           | Some s2 \<Rightarrow> spi_wait_bsy m dev s2))"

definition gpio_c2_write :: "device \<Rightarrow> bool \<Rightarrow> hw \<Rightarrow> hw" where
  "gpio_c2_write dev pin_state s =
     REGISTER_SET_VALUE dev (GPIO_ODR GPIOC) (ODR 2) (of_bool pin_state) s"

definition gpio_d13_write :: "device \<Rightarrow> bool \<Rightarrow> hw \<Rightarrow> hw" where
  "gpio_d13_write dev pin_state s =
     REGISTER_SET_VALUE dev (GPIO_ODR GPIOD) (ODR 13) (of_bool pin_state) s"

section \<open>Reading the bus log\<close>

text \<open>
  \<open>polls_until ready r es\<close> reads a wait off the front of a log: reads of \<open>r\<close> whose value
  is not \<open>ready\<close>, then one read whose value is. It returns the events after the wait.
\<close>

fun polls_until :: "(32 word \<Rightarrow> bool) \<Rightarrow> reg \<Rightarrow> event list \<Rightarrow> event list option" where
  "polls_until ready r (Rd r' v # es) =
     (if r' = r then (if ready v then Some es else polls_until ready r es) else None)"
| "polls_until ready r (Wr r' v # es) = None"
| "polls_until ready r [] = None"

definition spi_idle :: "header \<Rightarrow> 32 word \<Rightarrow> bool" where
  "spi_idle m v \<longleftrightarrow> v AND cst m SPI_BSY = 0"

definition spi_ready :: "header \<Rightarrow> 32 word \<Rightarrow> bool" where
  "spi_ready m v \<longleftrightarrow> v AND cst m SPI_TXE \<noteq> 0"

text \<open>
  The log of the \<^verbatim>\<open>for\<close> loop of \<^verbatim>\<open>spi_5_write\<close>: for each byte in turn, the write of the
  byte to \<^verbatim>\<open>SPI_DR\<close>, then a wait for \<^verbatim>\<open>SPI_TXE\<close>.
\<close>

fun sends_trace :: "header \<Rightarrow> 8 word list \<Rightarrow> event list \<Rightarrow> event list option" where
  "sends_trace m [] es = Some es"
| "sends_trace m (b # bs) (Wr r v # es) =
     (if r = SPI_DR SPI5 \<and> v = ucast b
      then (case polls_until (spi_ready m) (SPI_SR SPI5) es of
              None \<Rightarrow> None
            | Some es' \<Rightarrow> sends_trace m bs es')
      else None)"
| "sends_trace m (b # bs) (Rd r v # es) = None"
| "sends_trace m (b # bs) [] = None"

definition write_trace :: "header \<Rightarrow> 8 word list \<Rightarrow> event list \<Rightarrow> bool" where
  "write_trace m data es =
     (case polls_until (spi_idle m) (SPI_SR SPI5) es of
        None \<Rightarrow> False
      | Some es1 \<Rightarrow>
          (case sends_trace m data es1 of
             None \<Rightarrow> False
           | Some es2 \<Rightarrow> polls_until (spi_idle m) (SPI_SR SPI5) es2 = Some []))"

text \<open>
  The log in the words of the spec: a wait for the transfer in flight, then for each byte a
  wait for ready-to-send followed by the load of the byte, then a wait for the end of the
  transfer.
\<close>

fun spec_sends_trace :: "header \<Rightarrow> 8 word list \<Rightarrow> event list \<Rightarrow> event list option" where
  "spec_sends_trace m [] es = Some es"
| "spec_sends_trace m (b # bs) es =
     (case polls_until (spi_ready m) (SPI_SR SPI5) es of
        Some (Wr r v # es') \<Rightarrow>
          (if r = SPI_DR SPI5 \<and> v = ucast b then spec_sends_trace m bs es' else None)
      | _ \<Rightarrow> None)"

definition spec_write_trace :: "header \<Rightarrow> 8 word list \<Rightarrow> event list \<Rightarrow> bool" where
  "spec_write_trace m data es =
     (case polls_until (spi_idle m) (SPI_SR SPI5) es of
        None \<Rightarrow> False
      | Some es1 \<Rightarrow>
          (case spec_sends_trace m data es1 of
             None \<Rightarrow> False
           | Some es2 \<Rightarrow> polls_until (spi_idle m) (SPI_SR SPI5) es2 = Some []))"

text \<open>The registers written, and the registers read, in the order of the log.\<close>

fun written :: "event list \<Rightarrow> reg list" where
  "written [] = []"
| "written (Wr r v # es) = r # written es"
| "written (Rd r v # es) = written es"

fun polled :: "event list \<Rightarrow> reg list" where
  "polled [] = []"
| "polled (Rd r v # es) = r # polled es"
| "polled (Wr r v # es) = polled es"

section \<open>A header and devices to run the routines on\<close>

text \<open>
  One header, to evaluate the routines on concrete inputs: the bit positions of the
  STM32F429 reference manual and the 240 by 320 frame buffer of the panel. The results
  below hold for every header; this one only serves as an example.
\<close>

definition stm32f429 :: header where
  "stm32f429 =
     \<lparr>cst = (\<lambda>c. case c of
          LTDCEN \<Rightarrow> 0x04000000 | PLLSAION \<Rightarrow> 0x10000000 | PLLON \<Rightarrow> 0x01000000
        | PLLSAIRDY \<Rightarrow> 0x20000000 | PLLRDY \<Rightarrow> 0x02000000 | RCC_PLLSAIDIVR_DIV8 \<Rightarrow> 2
        | LTDC_PCPOL \<Rightarrow> 0x10000000 | LTDC_PF_L8 \<Rightarrow> 5 | LTDC_LEN \<Rightarrow> 1 | LTDC_IMR \<Rightarrow> 1
        | LTDC_LTDCEN \<Rightarrow> 1 | SPI_BSY \<Rightarrow> 0x80 | SPI_TXE \<Rightarrow> 2),
      macro = (\<lambda>f x. case f of
          LTDC_HSW \<Rightarrow> push_bit 16 (word_of_int x) | LTDC_AHBP \<Rightarrow> push_bit 16 (word_of_int x)
        | LTDC_AAW \<Rightarrow> push_bit 16 (word_of_int x) | LTDC_TOTALW \<Rightarrow> push_bit 16 (word_of_int x)
        | LTDC_WHSPPOS \<Rightarrow> push_bit 16 (word_of_int x)
        | LTDC_WVSPPOS \<Rightarrow> push_bit 16 (word_of_int x)
        | LTDC_CFBP \<Rightarrow> push_bit 16 (word_of_int x)
        | _ \<Rightarrow> word_of_int x),
      field_range = (\<lambda>f. case f of
          PLLSAIN \<Rightarrow> (6, 14) | PLLSAIR \<Rightarrow> (28, 30) | PLLSAIDIVR \<Rightarrow> (16, 17)),
      ION_FRAMEBUFFER_WIDTH = 240,
      ION_FRAMEBUFFER_HEIGHT = 320,
      ION_FRAMEBUFFER_ADDRESS = 0x20000000\<rparr>"

definition hw0 :: hw where
  "hw0 = \<lparr>regs = (\<lambda>r. 0), bus = []\<rparr>"

text \<open>
  Three devices. On \<open>settled\<close> both PLLs report ready at once and the SPI port is idle with
  an empty transmit buffer. On \<open>stuck\<close> the PLLs never report ready and the SPI port stays
  busy. On \<open>late_txe\<close> the SPI port is idle, and its transmit buffer reports empty from the
  third bus access on only. Every other register is plain memory.
\<close>

definition settled :: device where
  "settled n r v =
     (if r = RCC_CR then v OR 0x22000000 else if r = SPI_SR SPI5 then 2 else v)"


definition late_txe :: device where
  "late_txe n r v = (if r = SPI_SR SPI5 then (if n < 2 then 0 else 2) else v)"

section \<open>The bus after a register access\<close>

lemma bus_reg_read [simp]: "bus (reg_read dev r s) = bus s @ [Rd r (reg_value dev r s)]"
  by (simp add: reg_read_def)

lemma regs_reg_read [simp]: "regs (reg_read dev r s) = regs s"
  by (simp add: reg_read_def)

lemma bus_reg_write [simp]: "bus (reg_write r v s) = bus s @ [Wr r v]"
  by (simp add: reg_write_def)

lemma regs_reg_write [simp]: "regs (reg_write r v s) = (regs s)(r := v)"
  by (simp add: reg_write_def)

section \<open>When the waits return\<close>


lemma spi_wait_bsy_ready_returns:
  assumes "length (bus s) \<le> n" "dev n (SPI_SR SPI5) (regs s (SPI_SR SPI5)) AND cst m SPI_BSY = 0"
  shows "\<exists>s'. spi_wait_bsy m dev s = Some s'"
  using assms
proof (induction "n - length (bus s)" arbitrary: s)
  case 0
  then have "reg_value dev (SPI_SR SPI5) s AND cst m SPI_BSY = 0" by (simp add: reg_value_def)
  then show ?case by (subst spi_wait_bsy.simps) simp
next
  case (Suc k)
  show ?case
  proof (cases "reg_value dev (SPI_SR SPI5) s AND cst m SPI_BSY \<noteq> 0")
    case True
    have "\<exists>s'. spi_wait_bsy m dev (reg_read dev (SPI_SR SPI5) s) = Some s'"
      using Suc by (intro Suc(1)) auto
    with True show ?thesis by (subst spi_wait_bsy.simps) simp
  next
    case False
    then show ?thesis by (subst spi_wait_bsy.simps) simp
  qed
qed



lemma spi_wait_txe_ready_returns:
  assumes "length (bus s) \<le> n" "dev n (SPI_SR SPI5) (regs s (SPI_SR SPI5)) AND cst m SPI_TXE \<noteq> 0"
  shows "\<exists>s'. spi_wait_txe m dev s = Some s'"
  using assms
proof (induction "n - length (bus s)" arbitrary: s)
  case 0
  then have "reg_value dev (SPI_SR SPI5) s AND cst m SPI_TXE \<noteq> 0" by (simp add: reg_value_def)
  then show ?case by (subst spi_wait_txe.simps) simp
next
  case (Suc k)
  show ?case
  proof (cases "reg_value dev (SPI_SR SPI5) s AND cst m SPI_TXE = 0")
    case True
    have "\<exists>s'. spi_wait_txe m dev (reg_read dev (SPI_SR SPI5) s) = Some s'"
      using Suc by (intro Suc(1)) auto
    with True show ?thesis by (subst spi_wait_txe.simps) simp
  next
    case False
    then show ?thesis by (subst spi_wait_txe.simps) simp
  qed
qed




section \<open>The log of the waits and of the write\<close>

lemma spi_wait_bsy_trace:
  assumes "spi_wait_bsy m dev s = Some s'"
  shows "regs s' = regs s \<and>
         (\<exists>ps. bus s' = bus s @ ps \<and>
            (\<forall>rest. polls_until (spi_idle m) (SPI_SR SPI5) (ps @ rest) = Some rest))"
  using assms
proof (induction m dev s s' rule: spi_wait_bsy.raw_induct [rotated 1, consumes 1])
  case (1 wait m dev s s')
  let ?v = "reg_value dev (SPI_SR SPI5) s"
  show ?case
  proof (cases "?v AND cst m SPI_BSY \<noteq> 0")
    case True
    with 1(2) have "wait m dev (reg_read dev (SPI_SR SPI5) s) = Some s'" by simp
    from 1(1) [OF this] obtain ps where regs: "regs s' = regs s"
      and bus: "bus s' = bus s @ Rd (SPI_SR SPI5) ?v # ps"
      and ps: "\<And>rest. polls_until (spi_idle m) (SPI_SR SPI5) (ps @ rest) = Some rest"
      by auto
    from True ps have "\<forall>rest. polls_until (spi_idle m) (SPI_SR SPI5)
        ((Rd (SPI_SR SPI5) ?v # ps) @ rest) = Some rest"
      by (simp add: spi_idle_def)
    with regs bus show ?thesis by blast
  next
    case False
    with 1(2) have s': "s' = reg_read dev (SPI_SR SPI5) s" by simp
    from False have "\<forall>rest. polls_until (spi_idle m) (SPI_SR SPI5)
        ([Rd (SPI_SR SPI5) ?v] @ rest) = Some rest"
      by (simp add: spi_idle_def)
    with s' show ?thesis by (intro conjI exI [of _ "[Rd (SPI_SR SPI5) ?v]"]) simp_all
  qed
qed

lemma spi_wait_txe_trace:
  assumes "spi_wait_txe m dev s = Some s'"
  shows "regs s' = regs s \<and>
         (\<exists>ps. bus s' = bus s @ ps \<and>
            (\<forall>rest. polls_until (spi_ready m) (SPI_SR SPI5) (ps @ rest) = Some rest))"
  using assms
proof (induction m dev s s' rule: spi_wait_txe.raw_induct [rotated 1, consumes 1])
  case (1 wait m dev s s')
  let ?v = "reg_value dev (SPI_SR SPI5) s"
  show ?case
  proof (cases "?v AND cst m SPI_TXE = 0")
    case True
    with 1(2) have "wait m dev (reg_read dev (SPI_SR SPI5) s) = Some s'" by simp
    from 1(1) [OF this] obtain ps where regs: "regs s' = regs s"
      and bus: "bus s' = bus s @ Rd (SPI_SR SPI5) ?v # ps"
      and ps: "\<And>rest. polls_until (spi_ready m) (SPI_SR SPI5) (ps @ rest) = Some rest"
      by auto
    from True ps have "\<forall>rest. polls_until (spi_ready m) (SPI_SR SPI5)
        ((Rd (SPI_SR SPI5) ?v # ps) @ rest) = Some rest"
      by (simp add: spi_ready_def)
    with regs bus show ?thesis by blast
  next
    case False
    with 1(2) have s': "s' = reg_read dev (SPI_SR SPI5) s" by simp
    from False have "\<forall>rest. polls_until (spi_ready m) (SPI_SR SPI5)
        ([Rd (SPI_SR SPI5) ?v] @ rest) = Some rest"
      by (simp add: spi_ready_def)
    with s' show ?thesis by (intro conjI exI [of _ "[Rd (SPI_SR SPI5) ?v]"]) simp_all
  qed
qed

lemma spi_5_send_trace:
  assumes "spi_5_send m dev data s = Some s'"
  shows "regs s' (SPI_SR SPI5) = regs s (SPI_SR SPI5) \<and>
         (\<exists>es. bus s' = bus s @ es \<and>
            (\<forall>rest. sends_trace m data (es @ rest) = Some rest))"
  using assms
proof (induction data arbitrary: s)
  case Nil
  then show ?case by simp
next
  case (Cons b bs)
  let ?s1 = "reg_write (SPI_DR SPI5) (ucast b) s"
  from Cons.prems obtain s2 where wait: "spi_wait_txe m dev ?s1 = Some s2"
    and rest: "spi_5_send m dev bs s2 = Some s'"
    by (auto split: option.splits)
  from spi_wait_txe_trace [OF wait] obtain ps where regs2: "regs s2 = regs ?s1"
    and bus2: "bus s2 = bus ?s1 @ ps"
    and ps: "\<And>rest. polls_until (spi_ready m) (SPI_SR SPI5) (ps @ rest) = Some rest"
    by auto
  from Cons.IH [OF rest] obtain es where regs': "regs s' (SPI_SR SPI5) = regs s2 (SPI_SR SPI5)"
    and bus': "bus s' = bus s2 @ es"
    and es: "\<And>rest. sends_trace m bs (es @ rest) = Some rest"
    by auto
  have "bus s' = bus s @ (Wr (SPI_DR SPI5) (ucast b) # ps @ es)"
    using bus' bus2 by simp
  moreover have "\<forall>rest. sends_trace m (b # bs) ((Wr (SPI_DR SPI5) (ucast b) # ps @ es) @ rest)
      = Some rest"
    using ps es by simp
  moreover have "regs s' (SPI_SR SPI5) = regs s (SPI_SR SPI5)"
    using regs' regs2 by simp
  ultimately show ?case by blast
qed

lemma spi_5_write_trace:
  assumes "spi_5_write m dev data s = Some s'"
  shows "\<exists>es. bus s' = bus s @ es \<and> write_trace m data es"
proof -
  from assms obtain s1 s2 where w1: "spi_wait_bsy m dev s = Some s1"
    and snd: "spi_5_send m dev data s1 = Some s2"
    and w2: "spi_wait_bsy m dev s2 = Some s'"
    by (auto simp: spi_5_write_def split: option.splits)
  from spi_wait_bsy_trace [OF w1] obtain ps where bus1: "bus s1 = bus s @ ps"
    and ps: "\<And>rest. polls_until (spi_idle m) (SPI_SR SPI5) (ps @ rest) = Some rest"
    by auto
  from spi_5_send_trace [OF snd] obtain es where bus2: "bus s2 = bus s1 @ es"
    and es: "\<And>rest. sends_trace m data (es @ rest) = Some rest"
    by auto
  from spi_wait_bsy_trace [OF w2] obtain qs where bus': "bus s' = bus s2 @ qs"
    and qs: "\<And>rest. polls_until (spi_idle m) (SPI_SR SPI5) (qs @ rest) = Some rest"
    by auto
  have "bus s' = bus s @ (ps @ es @ qs)"
    using bus1 bus2 bus' by simp
  moreover have "write_trace m data (ps @ es @ qs)"
    using ps [of "es @ qs"] es [of qs] qs [of "[]"] by (simp add: write_trace_def)
  ultimately show ?thesis by blast
qed

lemma spi_5_send_returns:
  assumes "\<forall>n\<ge>k. dev n (SPI_SR SPI5) (regs s (SPI_SR SPI5)) AND cst m SPI_TXE \<noteq> 0"
  shows "\<exists>s'. spi_5_send m dev data s = Some s'"
  using assms
proof (induction data arbitrary: s)
  case Nil
  then show ?case by simp
next
  case (Cons b bs)
  let ?s1 = "reg_write (SPI_DR SPI5) (ucast b) s"
  let ?n = "max k (length (bus ?s1))"
  have "dev ?n (SPI_SR SPI5) (regs ?s1 (SPI_SR SPI5)) AND cst m SPI_TXE \<noteq> 0"
    using Cons.prems by simp
  then have "\<exists>s2. spi_wait_txe m dev ?s1 = Some s2"
    by (intro spi_wait_txe_ready_returns [of ?s1 ?n]) simp_all
  then obtain s2 where wait: "spi_wait_txe m dev ?s1 = Some s2" ..
  from spi_wait_txe_trace [OF wait] have "regs s2 (SPI_SR SPI5) = regs s (SPI_SR SPI5)"
    by simp
  with Cons.prems have "\<exists>s'. spi_5_send m dev bs s2 = Some s'"
    by (intro Cons.IH) simp
  with wait show ?case by simp
qed

lemma spi_5_write_returns:
  assumes "\<forall>n\<ge>k. dev n (SPI_SR SPI5) (regs s (SPI_SR SPI5)) AND cst m SPI_BSY = 0 \<and>
                  dev n (SPI_SR SPI5) (regs s (SPI_SR SPI5)) AND cst m SPI_TXE \<noteq> 0"
  shows "\<exists>s'. spi_5_write m dev data s = Some s'"
proof -
  let ?n = "max k (length (bus s))"
  have "\<exists>s1. spi_wait_bsy m dev s = Some s1"
    using assms by (intro spi_wait_bsy_ready_returns [of s ?n]) simp_all
  then obtain s1 where w1: "spi_wait_bsy m dev s = Some s1" ..
  from spi_wait_bsy_trace [OF w1] have regs1: "regs s1 = regs s" by simp
  have "\<exists>s2. spi_5_send m dev data s1 = Some s2"
    using assms regs1 by (intro spi_5_send_returns [of k]) simp
  then obtain s2 where snd: "spi_5_send m dev data s1 = Some s2" ..
  from spi_5_send_trace [OF snd] regs1
  have regs2: "regs s2 (SPI_SR SPI5) = regs s (SPI_SR SPI5)" by simp
  let ?n2 = "max k (length (bus s2))"
  have "\<exists>s'. spi_wait_bsy m dev s2 = Some s'"
    using assms regs2 by (intro spi_wait_bsy_ready_returns [of s2 ?n2]) simp_all
  with w1 snd show ?thesis by (simp add: spi_5_write_def)
qed

lemma pll_wait_trace:
  assumes "pll_wait m dev s = Some s'"
  shows "regs s' = regs s \<and> (\<exists>ps. bus s' = bus s @ ps \<and> written ps = [])"
  using assms
proof (induction m dev s s' rule: pll_wait.raw_induct [rotated 1, consumes 1])
  case (1 wait m dev s s')
  let ?v1 = "reg_value dev RCC_CR s"
  let ?s1 = "reg_read dev RCC_CR s"
  let ?v2 = "reg_value dev RCC_CR ?s1"
  let ?s2 = "reg_read dev RCC_CR ?s1"
  consider (a) "?v1 AND cst m PLLSAIRDY = 0"
    | (b) "?v1 AND cst m PLLSAIRDY \<noteq> 0" "?v2 AND cst m PLLRDY = 0"
    | (c) "?v1 AND cst m PLLSAIRDY \<noteq> 0" "?v2 AND cst m PLLRDY \<noteq> 0"
    by blast
  then show ?case
  proof cases
    case a
    with 1(2) have "wait m dev ?s1 = Some s'" by simp
    from 1(1) [OF this] obtain ps where "regs s' = regs s"
      "bus s' = bus s @ Rd RCC_CR ?v1 # ps" "written ps = []"
      by auto
    then have "regs s' = regs s \<and> bus s' = bus s @ (Rd RCC_CR ?v1 # ps) \<and>
      written (Rd RCC_CR ?v1 # ps) = []" by simp
    then show ?thesis by blast
  next
    case b
    with 1(2) have "wait m dev ?s2 = Some s'" by simp
    from 1(1) [OF this] obtain ps where "regs s' = regs s"
      "bus s' = bus s @ Rd RCC_CR ?v1 # Rd RCC_CR ?v2 # ps" "written ps = []"
      by auto
    then have "regs s' = regs s \<and> bus s' = bus s @ (Rd RCC_CR ?v1 # Rd RCC_CR ?v2 # ps) \<and>
      written (Rd RCC_CR ?v1 # Rd RCC_CR ?v2 # ps) = []" by simp
    then show ?thesis by blast
  next
    case c
    with 1(2) have "s' = ?s2" by simp
    then have "regs s' = regs s \<and> bus s' = bus s @ [Rd RCC_CR ?v1, Rd RCC_CR ?v2] \<and>
      written [Rd RCC_CR ?v1, Rd RCC_CR ?v2] = []" by simp
    then show ?thesis by blast
  qed
qed

section \<open>C1: the polls have no budget\<close>
















section \<open>C2: the clock routine checks no plan\<close>

lemma init_rgb_clocks_program:
  "\<exists>s5 a b c d e.
     init_rgb_clocks m dev s = pll_wait m dev s5 \<and>
     bus s5 = bus s @
       [Rd RCC_APB2ENR a, Wr RCC_APB2ENR (a OR cst m LTDCEN),
        Rd RCC_PLLSAICFGR b,
        Wr RCC_PLLSAICFGR
          ((b AND NOT (field_mask (field_range m PLLSAIN)))
             OR push_bit (fst (field_range m PLLSAIN)) 192),
        Rd RCC_PLLSAICFGR c,
        Wr RCC_PLLSAICFGR
          ((c AND NOT (field_mask (field_range m PLLSAIR)))
             OR push_bit (fst (field_range m PLLSAIR)) 4),
        Rd RCC_DCKCFGR d,
        Wr RCC_DCKCFGR
          ((d AND NOT (field_mask (field_range m PLLSAIDIVR)))
             OR push_bit (fst (field_range m PLLSAIDIVR)) (cst m RCC_PLLSAIDIVR_DIV8)),
        Rd RCC_CR e, Wr RCC_CR (e OR (cst m PLLSAION OR cst m PLLON))]"
  unfolding init_rgb_clocks_def Let_def reg_or_def REGISTER_SET_VALUE_def
  by (intro exI conjI, rule refl) simp

lemma init_rgb_clocks_written:
  assumes "init_rgb_clocks m dev s = Some s'"
  shows "written (drop (length (bus s)) (bus s')) =
           [RCC_APB2ENR, RCC_PLLSAICFGR, RCC_PLLSAICFGR, RCC_DCKCFGR, RCC_CR]"
proof -
  from init_rgb_clocks_program [of m dev s] obtain s5 es
    where wait: "init_rgb_clocks m dev s = pll_wait m dev s5"
      and bus5: "bus s5 = bus s @ es"
      and es: "written es = [RCC_APB2ENR, RCC_PLLSAICFGR, RCC_PLLSAICFGR, RCC_DCKCFGR, RCC_CR]"
    by fastforce
  from wait assms have "pll_wait m dev s5 = Some s'" by simp
  from pll_wait_trace [OF this] obtain ps where "bus s' = bus s5 @ ps" "written ps = []"
    by blast
  moreover have "written (xs @ ys) = written xs @ written ys" for xs ys
    by (induction xs rule: written.induct) simp_all
  ultimately show ?thesis using bus5 es by simp
qed

lemma settled_clocks_run:
  "map_option (written \<circ> bus) (init_rgb_clocks stm32f429 settled hw0) =
     Some [RCC_APB2ENR, RCC_PLLSAICFGR, RCC_PLLSAICFGR, RCC_DCKCFGR, RCC_CR]"
  by (simp add: init_rgb_clocks_def Let_def pll_wait.simps reg_or_def
      REGISTER_SET_VALUE_def reg_value_def reg_read_def reg_write_def settled_def hw0_def
      stm32f429_def)

text \<open>
  A plan with the multiplier 500 is out of bounds. With it the routine writes five registers
  and returns: it neither fails nor leaves the registers alone.
\<close>

theorem clock_engine_validates_counterexample:
  "\<not> plan_in_bounds
       \<lparr>target = 6, input = 16, multiplier = 500, post_divider = 4, output_divider = 8\<rparr> \<and>
   map_option (written \<circ> bus)
     (clock_engine
        \<lparr>target = 6, input = 16, multiplier = 500, post_divider = 4, output_divider = 8\<rparr>
        stm32f429 settled hw0) =
     Some [RCC_APB2ENR, RCC_PLLSAICFGR, RCC_PLLSAICFGR, RCC_DCKCFGR, RCC_CR]"
  by (simp add: plan_in_bounds_def clock_engine_def settled_clocks_run)

text \<open>
  Claim C2, as the code has it. \<^verbatim>\<open>init_rgb_clocks\<close> takes no plan, checks no bound and has no
  failure to report. Whatever the plan, it makes the same ten bus accesses before it waits
  for the lock: it sets \<^verbatim>\<open>LTDCEN\<close> in \<^verbatim>\<open>RCC_APB2ENR\<close>, puts 192 in \<^verbatim>\<open>PLLSAIN\<close> and 4 in
  \<^verbatim>\<open>PLLSAIR\<close> of \<^verbatim>\<open>RCC_PLLSAICFGR\<close>, \<^verbatim>\<open>RCC_PLLSAIDIVR_DIV8\<close> in \<^verbatim>\<open>PLLSAIDIVR\<close> of
  \<^verbatim>\<open>RCC_DCKCFGR\<close>, and sets \<^verbatim>\<open>PLLSAION\<close> and \<^verbatim>\<open>PLLON\<close> in \<^verbatim>\<open>RCC_CR\<close>; the wait writes
  nothing more. The stage values it programs, 192, 4 and 8, are within the bounds.
\<close>

theorem clock_engine_writes_unconditionally:
  "(\<exists>s5 a b c d e.
     clock_engine p m dev s = pll_wait m dev s5 \<and>
     bus s5 = bus s @
       [Rd RCC_APB2ENR a, Wr RCC_APB2ENR (a OR cst m LTDCEN),
        Rd RCC_PLLSAICFGR b,
        Wr RCC_PLLSAICFGR
          ((b AND NOT (field_mask (field_range m PLLSAIN)))
             OR push_bit (fst (field_range m PLLSAIN)) 192),
        Rd RCC_PLLSAICFGR c,
        Wr RCC_PLLSAICFGR
          ((c AND NOT (field_mask (field_range m PLLSAIR)))
             OR push_bit (fst (field_range m PLLSAIR)) 4),
        Rd RCC_DCKCFGR d,
        Wr RCC_DCKCFGR
          ((d AND NOT (field_mask (field_range m PLLSAIDIVR)))
             OR push_bit (fst (field_range m PLLSAIDIVR)) (cst m RCC_PLLSAIDIVR_DIV8)),
        Rd RCC_CR e, Wr RCC_CR (e OR (cst m PLLSAION OR cst m PLLON))]) \<and>
   (clock_engine p m dev s = Some s' \<longrightarrow>
      written (drop (length (bus s)) (bus s')) =
        [RCC_APB2ENR, RCC_PLLSAICFGR, RCC_PLLSAICFGR, RCC_DCKCFGR, RCC_CR]) \<and>
   plan_in_bounds rgb_clock_plan"
  unfolding clock_engine_def
  using init_rgb_clocks_program [of m dev s] init_rgb_clocks_written [of m dev s s']
  by (simp add: plan_in_bounds_def rgb_clock_plan_def)

theorem clock_engine_writes_unconditionally_witness:
  "\<exists>s'. clock_engine
          \<lparr>target = 25, input = 16, multiplier = 48, post_divider = 1, output_divider = 3\<rparr>
          stm32f429 settled hw0 = Some s' \<and>
        written (bus s') = [RCC_APB2ENR, RCC_PLLSAICFGR, RCC_PLLSAICFGR, RCC_DCKCFGR, RCC_CR]"
proof -
  let ?p = "\<lparr>target = 25, input = 16, multiplier = 48, post_divider = 1, output_divider = 3\<rparr>"
  obtain s' where run: "clock_engine ?p stm32f429 settled hw0 = Some s'"
    using settled_clocks_run by (auto simp: clock_engine_def)
  with clock_engine_writes_unconditionally [of ?p stm32f429 settled hw0 s']
  have "written (drop (length (bus hw0)) (bus s')) =
      [RCC_APB2ENR, RCC_PLLSAICFGR, RCC_PLLSAICFGR, RCC_DCKCFGR, RCC_CR]"
    by blast
  then have "written (bus s') = [RCC_APB2ENR, RCC_PLLSAICFGR, RCC_PLLSAICFGR, RCC_DCKCFGR, RCC_CR]"
    by (simp add: hw0_def)
  with run show ?thesis by blast
qed

section \<open>C3: the pixel clock\<close>

lemma field_value_set:
  fixes w v :: "32 word"
  assumes "fst f \<le> snd f" "snd f < 32" "take_bit (Suc (snd f) - fst f) v = v"
  shows "field_value f ((w AND NOT (field_mask f)) OR push_bit (fst f) v) = v"
proof (rule bit_word_eqI)
  fix i
  assume i: "i < LENGTH(32)"
  have v: "bit v j \<longleftrightarrow> j < Suc (snd f) - fst f \<and> bit v j" for j
    by (subst assms(3) [symmetric]) (simp add: bit_simps)
  show "bit (field_value f ((w AND NOT (field_mask f)) OR push_bit (fst f) v)) i \<longleftrightarrow> bit v i"
    using assms(1,2) i v [of i]
    by (auto simp: field_value_def field_mask_def bit_simps)
qed

lemma field_value_other:
  fixes w v :: "32 word"
  assumes "snd f < fst g \<or> snd g < fst f" "fst g \<le> snd g"
    "take_bit (Suc (snd g) - fst g) v = v"
  shows "field_value f ((w AND NOT (field_mask g)) OR push_bit (fst g) v) = field_value f w"
proof (rule bit_word_eqI)
  fix i
  assume i: "i < LENGTH(32)"
  have v: "bit v j \<longleftrightarrow> j < Suc (snd g) - fst g \<and> bit v j" for j
    by (subst assms(3) [symmetric]) (simp add: bit_simps)
  show "bit (field_value f ((w AND NOT (field_mask g)) OR push_bit (fst g) v)) i \<longleftrightarrow>
      bit (field_value f w) i"
    using assms(1,2) i v [of "fst f + i - fst g"]
    by (auto simp: field_value_def field_mask_def bit_simps)
qed

lemma init_rgb_clocks_regs:
  assumes "\<forall>n v. dev n RCC_PLLSAICFGR v = v" "\<forall>n v. dev n RCC_DCKCFGR v = v"
    and "init_rgb_clocks m dev s = Some s'"
  shows "regs s' RCC_PLLSAICFGR =
           ((((regs s RCC_PLLSAICFGR AND NOT (field_mask (field_range m PLLSAIN)))
               OR push_bit (fst (field_range m PLLSAIN)) 192)
             AND NOT (field_mask (field_range m PLLSAIR)))
            OR push_bit (fst (field_range m PLLSAIR)) 4)"
    and "regs s' RCC_DCKCFGR =
           ((regs s RCC_DCKCFGR AND NOT (field_mask (field_range m PLLSAIDIVR)))
            OR push_bit (fst (field_range m PLLSAIDIVR)) (cst m RCC_PLLSAIDIVR_DIV8))"
proof -
  let ?s1 = "reg_or dev RCC_APB2ENR (cst m LTDCEN) s"
  let ?s2 = "REGISTER_SET_VALUE dev RCC_PLLSAICFGR (field_range m PLLSAIN) 192 ?s1"
  let ?s3 = "REGISTER_SET_VALUE dev RCC_PLLSAICFGR (field_range m PLLSAIR) 4 ?s2"
  let ?s4 = "REGISTER_SET_VALUE dev RCC_DCKCFGR (field_range m PLLSAIDIVR)
               (cst m RCC_PLLSAIDIVR_DIV8) ?s3"
  let ?s5 = "reg_or dev RCC_CR (cst m PLLSAION OR cst m PLLON) ?s4"
  from assms(3) have "pll_wait m dev ?s5 = Some s'"
    by (simp add: init_rgb_clocks_def Let_def)
  from pll_wait_trace [OF this] have regs: "regs s' = regs ?s5" by simp
  show "regs s' RCC_PLLSAICFGR =
           ((((regs s RCC_PLLSAICFGR AND NOT (field_mask (field_range m PLLSAIN)))
               OR push_bit (fst (field_range m PLLSAIN)) 192)
             AND NOT (field_mask (field_range m PLLSAIR)))
            OR push_bit (fst (field_range m PLLSAIR)) 4)"
    unfolding regs using assms(1)
    by (simp add: reg_or_def REGISTER_SET_VALUE_def reg_value_def)
  show "regs s' RCC_DCKCFGR =
           ((regs s RCC_DCKCFGR AND NOT (field_mask (field_range m PLLSAIDIVR)))
            OR push_bit (fst (field_range m PLLSAIDIVR)) (cst m RCC_PLLSAIDIVR_DIV8))"
    unfolding regs using assms(2)
    by (simp add: reg_or_def REGISTER_SET_VALUE_def reg_value_def)
qed

lemma fits_192: "8 \<le> n \<Longrightarrow> take_bit n (192 :: 32 word) = 192"
proof -
  assume "8 \<le> n"
  have "take_bit n (take_bit 8 (192 :: 32 word)) = take_bit 8 (192 :: 32 word)"
    using \<open>8 \<le> n\<close> by (simp only: take_bit_take_bit min_absorb2)
  then show ?thesis by simp
qed

lemma fits_4: "3 \<le> n \<Longrightarrow> take_bit n (4 :: 32 word) = 4"
proof -
  assume "3 \<le> n"
  have "take_bit n (take_bit 3 (4 :: 32 word)) = take_bit 3 (4 :: 32 word)"
    using \<open>3 \<le> n\<close> by (simp only: take_bit_take_bit min_absorb2)
  then show ?thesis by simp
qed

lemma init_rgb_clocks_stages:
  assumes "fields_laid_out m"
    and "\<forall>n v. dev n RCC_PLLSAICFGR v = v" "\<forall>n v. dev n RCC_DCKCFGR v = v"
    and "init_rgb_clocks m dev s = Some s'"
  shows "programmed_plan tgt inp m s' =
           \<lparr>target = tgt, input = inp, multiplier = 192, post_divider = 4,
            output_divider = 8\<rparr>"
proof -
  let ?N = "field_range m PLLSAIN" and ?R = "field_range m PLLSAIR"
    and ?D = "field_range m PLLSAIDIVR"
  from assms(1) have lay: "fst ?N + 7 \<le> snd ?N" "snd ?N < 32" "fst ?R + 2 \<le> snd ?R"
    "snd ?R < 32" "snd ?N < fst ?R \<or> snd ?R < fst ?N" "fst ?D \<le> snd ?D" "snd ?D < 32"
    "take_bit (Suc (snd ?D) - fst ?D) (cst m RCC_PLLSAIDIVR_DIV8) = cst m RCC_PLLSAIDIVR_DIV8"
    by (simp_all add: fields_laid_out_def)
  have n192: "take_bit (Suc (snd ?N) - fst ?N) (192 :: 32 word) = 192"
    using lay(1) by (intro fits_192) simp
  have r4: "take_bit (Suc (snd ?R) - fst ?R) (4 :: 32 word) = 4"
    using lay(3) by (intro fits_4) simp
  note regs = init_rgb_clocks_regs [OF assms(2,3,4)]
  have "field_value ?N (regs s' RCC_PLLSAICFGR) = 192"
    unfolding regs using lay(1,2,3,5) n192 r4
    by (simp add: field_value_other field_value_set)
  moreover have "field_value ?R (regs s' RCC_PLLSAICFGR) = 4"
    unfolding regs using lay(3,4) r4
    by (simp add: field_value_set)
  moreover have "field_value ?D (regs s' RCC_DCKCFGR) = cst m RCC_PLLSAIDIVR_DIV8"
    unfolding regs using lay(6,7,8)
    by (simp add: field_value_set)
  ultimately show ?thesis by (simp add: programmed_plan_def)
qed

lemma stm32f429_laid_out: "fields_laid_out stm32f429"
  by (simp add: fields_laid_out_def stm32f429_def)

lemma settled_plain:
  "\<forall>n v. settled n RCC_PLLSAICFGR v = v" "\<forall>n v. settled n RCC_DCKCFGR v = v"
  by (simp_all add: settled_def)

text \<open>
  A run of \<^verbatim>\<open>init_rgb_clocks\<close> on the \<open>settled\<close> device leaves the multiplier 192, the
  post-divider 4 and the output divider 8 in the registers, a plan within the bounds. With
  the input 16 the formula of the spec gives 96 for it, not 6.
\<close>

theorem pixel_clock_formula_counterexample:
  "map_option (programmed_plan 6 16 stm32f429) (init_rgb_clocks stm32f429 settled hw0) =
     Some \<lparr>target = 6, input = 16, multiplier = 192, post_divider = 4, output_divider = 8\<rparr> \<and>
   plan_in_bounds
     \<lparr>target = 6, input = 16, multiplier = 192, post_divider = 4, output_divider = 8\<rparr> \<and>
   spec_output_clock
     \<lparr>target = 6, input = 16, multiplier = 192, post_divider = 4, output_divider = 8\<rparr> = 96"
proof -
  obtain s' where run: "init_rgb_clocks stm32f429 settled hw0 = Some s'"
    using settled_clocks_run by auto
  from init_rgb_clocks_stages [OF stm32f429_laid_out settled_plain run, of 6 16] run
  show ?thesis
    by (simp add: plan_in_bounds_def spec_output_clock_def)
qed

text \<open>
  Claim C3, as the code has it. On a header that lays the three fields out well and a
  device whose \<^verbatim>\<open>RCC_PLLSAICFGR\<close> and \<^verbatim>\<open>RCC_DCKCFGR\<close> read back what was written, every run of
  \<^verbatim>\<open>init_rgb_clocks\<close> that returns has programmed the multiplier 192, the post-divider 4 and
  the output divider 8. This plan is within the bounds, and for it
  \<open>input * multiplier / (post_divider * output_divider)\<close> is six times the input: it is the
  target 6 exactly when the input is 1, and 96 when the input is 16.
\<close>

theorem programmed_clock_plan:
  assumes "fields_laid_out m"
    and "\<forall>n v. dev n RCC_PLLSAICFGR v = v" "\<forall>n v. dev n RCC_DCKCFGR v = v"
    and "init_rgb_clocks m dev s = Some s'"
  shows "programmed_plan tgt inp m s' =
           \<lparr>target = tgt, input = inp, multiplier = 192, post_divider = 4,
            output_divider = 8\<rparr> \<and>
         plan_in_bounds (programmed_plan tgt inp m s') \<and>
         spec_output_clock (programmed_plan tgt inp m s') = 6 * inp \<and>
         (spec_output_clock (programmed_plan 6 inp m s') = target (programmed_plan 6 inp m s')
            \<longleftrightarrow> inp = 1) \<and>
         programmed_plan 6 16 m s' = rgb_clock_plan"
  using init_rgb_clocks_stages [OF assms]
  by (simp add: plan_in_bounds_def spec_output_clock_def rgb_clock_plan_def)

theorem programmed_clock_plan_witness:
  "\<exists>s'. init_rgb_clocks stm32f429 settled hw0 = Some s' \<and>
        programmed_plan 6 1 stm32f429 s' =
          \<lparr>target = 6, input = 1, multiplier = 192, post_divider = 4, output_divider = 8\<rparr> \<and>
        spec_output_clock (programmed_plan 6 1 stm32f429 s') = 6 \<and>
        spec_output_clock (programmed_plan 6 16 stm32f429 s') = 96"
proof -
  obtain s' where run: "init_rgb_clocks stm32f429 settled hw0 = Some s'"
    using settled_clocks_run by auto
  have a: "programmed_plan 6 1 stm32f429 s' =
      \<lparr>target = 6, input = 1, multiplier = 192, post_divider = 4, output_divider = 8\<rparr>"
    and b: "spec_output_clock (programmed_plan 6 1 stm32f429 s') = 6 * 1"
    using programmed_clock_plan [OF stm32f429_laid_out settled_plain run, of 6 1]
    by blast+
  have c: "spec_output_clock (programmed_plan 6 16 stm32f429 s') = 6 * 16"
    using programmed_clock_plan [OF stm32f429_laid_out settled_plain run, of 6 16]
    by blast
  from b c have "spec_output_clock (programmed_plan 6 1 stm32f429 s') = 6"
    "spec_output_clock (programmed_plan 6 16 stm32f429 s') = 96"
    by simp_all
  with run a show ?thesis by blast
qed

section \<open>The bus log of the timing routine\<close>

lemma rgb_timings_bus:
  "bus (rgb_timings m t dev s) = bus s @
     [Wr LTDC_SSCR
        (macro m LTDC_VSH (c_int (lcd_panel_vsync t - 1)) OR macro m LTDC_HSW (c_int (lcd_panel_hsync t - 1))),
      Wr LTDC_BPCR
        (macro m LTDC_AVBP (c_int (lcd_panel_vsync t + lcd_panel_vbp t - 1)) OR
         macro m LTDC_AHBP (c_int (lcd_panel_hsync t + lcd_panel_hbp t - 1))),
      Wr LTDC_AWCR
        (macro m LTDC_AAH (c_int (lcd_panel_vsync t + lcd_panel_vbp t + lcd_panel_vadr t - 1)) OR
         macro m LTDC_AAW (c_int (lcd_panel_hsync t + lcd_panel_hbp t + lcd_panel_hadr t - 1))),
      Wr LTDC_TWCR
        (macro m LTDC_TOTALH
           (c_int (lcd_panel_vsync t + lcd_panel_vbp t + lcd_panel_vadr t + lcd_panel_vfp t - 1)) OR
         macro m LTDC_TOTALW
           (c_int (lcd_panel_hsync t + lcd_panel_hbp t + lcd_panel_hadr t + lcd_panel_hfp t - 1))),
      Rd LTDC_GCR (dev (length (bus s) + 4) LTDC_GCR (regs s LTDC_GCR)),
      Wr LTDC_GCR (dev (length (bus s) + 4) LTDC_GCR (regs s LTDC_GCR) OR cst m LTDC_PCPOL),
      Wr LTDC_BCCR 0x00FF00FF,
      Wr (LTDC_LWHPCR LTDC_LAYER1)
        (macro m LTDC_WHSTPOS (c_int (lcd_panel_hsync t + lcd_panel_hbp t)) OR
         macro m LTDC_WHSPPOS (c_int (lcd_panel_hsync t + lcd_panel_hbp t + lcd_panel_hadr t - 1))),
      Wr (LTDC_LWVPCR LTDC_LAYER1)
        (macro m LTDC_WVSTPOS (c_int (lcd_panel_vsync t + lcd_panel_vbp t)) OR
         macro m LTDC_WVSPPOS (c_int (lcd_panel_vsync t + lcd_panel_vbp t + lcd_panel_vadr t - 1))),
      Wr (LTDC_LPFCR LTDC_LAYER1) (cst m LTDC_PF_L8),
      Wr (LTDC_LCFBAR LTDC_LAYER1) (ION_FRAMEBUFFER_ADDRESS m),
      Wr (LTDC_LCFBLR LTDC_LAYER1)
        (macro m LTDC_CFBLL (ION_FRAMEBUFFER_WIDTH m + 3) OR
         macro m LTDC_CFBP (ION_FRAMEBUFFER_WIDTH m)),
      Wr (LTDC_LCFBLNR LTDC_LAYER1) (macro m LTDC_CFBLNR (ION_FRAMEBUFFER_HEIGHT m)),
      Wr (LTDC_LCR LTDC_LAYER1) (cst m LTDC_LEN),
      Wr LTDC_SRCR (cst m LTDC_IMR),
      Rd LTDC_GCR
        (dev (length (bus s) + 15) LTDC_GCR
           (dev (length (bus s) + 4) LTDC_GCR (regs s LTDC_GCR) OR cst m LTDC_PCPOL)),
      Wr LTDC_GCR
        (dev (length (bus s) + 15) LTDC_GCR
           (dev (length (bus s) + 4) LTDC_GCR (regs s LTDC_GCR) OR cst m LTDC_PCPOL)
         OR cst m LTDC_LTDCEN)]"
  by (simp add: rgb_timings_def Let_def reg_or_def reg_value_def eval_nat_numeral)

lemma rgb_timings_regs:
  "regs (rgb_timings m t dev s) LTDC_TWCR =
     (macro m LTDC_TOTALH
        (c_int (lcd_panel_vsync t + lcd_panel_vbp t + lcd_panel_vadr t + lcd_panel_vfp t - 1)) OR
      macro m LTDC_TOTALW
        (c_int (lcd_panel_hsync t + lcd_panel_hbp t + lcd_panel_hadr t + lcd_panel_hfp t - 1)))"
  "regs (rgb_timings m t dev s) (LTDC_LWHPCR LTDC_LAYER1) =
     (macro m LTDC_WHSTPOS (c_int (lcd_panel_hsync t + lcd_panel_hbp t)) OR
      macro m LTDC_WHSPPOS (c_int (lcd_panel_hsync t + lcd_panel_hbp t + lcd_panel_hadr t - 1)))"
  "regs (rgb_timings m t dev s) (LTDC_LWVPCR LTDC_LAYER1) =
     (macro m LTDC_WVSTPOS (c_int (lcd_panel_vsync t + lcd_panel_vbp t)) OR
      macro m LTDC_WVSPPOS (c_int (lcd_panel_vsync t + lcd_panel_vbp t + lcd_panel_vadr t - 1)))"
  "regs (rgb_timings m t dev s) (LTDC_LPFCR LTDC_LAYER1) = cst m LTDC_PF_L8"
  "regs (rgb_timings m t dev s) (LTDC_LCFBLR LTDC_LAYER1) =
     (macro m LTDC_CFBLL (ION_FRAMEBUFFER_WIDTH m + 3) OR
      macro m LTDC_CFBP (ION_FRAMEBUFFER_WIDTH m))"
  "regs (rgb_timings m t dev s) (LTDC_LCFBLNR LTDC_LAYER1) =
     macro m LTDC_CFBLNR (ION_FRAMEBUFFER_HEIGHT m)"
  by (simp_all add: rgb_timings_def Let_def reg_or_def)

lemma settled_timings_run:
  "bus (init_rgb_timings stm32f429 settled hw0) =
     [Wr LTDC_SSCR 0x00090001, Wr LTDC_BPCR 0x001D0003, Wr LTDC_AWCR 0x010D0143,
      Wr LTDC_TWCR 0x01170147, Rd LTDC_GCR 0, Wr LTDC_GCR 0x10000000,
      Wr LTDC_BCCR 0x00FF00FF, Wr (LTDC_LWHPCR LTDC_LAYER1) 0x010D001E,
      Wr (LTDC_LWVPCR LTDC_LAYER1) 0x01430004, Wr (LTDC_LPFCR LTDC_LAYER1) 5,
      Wr (LTDC_LCFBAR LTDC_LAYER1) 0x20000000, Wr (LTDC_LCFBLR LTDC_LAYER1) 0x00F000F3,
      Wr (LTDC_LCFBLNR LTDC_LAYER1) 320, Wr (LTDC_LCR LTDC_LAYER1) 1,
      Wr LTDC_SRCR 1, Rd LTDC_GCR 0x10000000, Wr LTDC_GCR 0x10000001]"
  by (simp add: init_rgb_timings_def rgb_timings_bus lcd_panel_def stm32f429_def hw0_def
      settled_def c_int_def)

section \<open>C4: the derived timing registers\<close>

lemma c_int_exact: "- 2147483648 \<le> x \<Longrightarrow> x \<le> 2147483647 \<Longrightarrow> c_int x = x"
  by (simp add: c_int_def)

text \<open>
  With an active width of \<open>2^31 - 1\<close> and the other values of the panel, all positive, the
  third horizontal sum does not fit an \<^verbatim>\<open>int\<close>: the value the routine passes to \<^verbatim>\<open>LTDC_AAW\<close>
  is below the 29 it passed to \<^verbatim>\<open>LTDC_AHBP\<close>, and on the example header the field written
  is \<open>0x1C\<close>, under the \<open>0x1D\<close> of the back porch.
\<close>

theorem derived_timing_registers_counterexample:
  "take 4 (bus (rgb_timings stm32f429
      \<lparr>lcd_panel_hsync = 10, lcd_panel_hbp = 20, lcd_panel_hadr = 2147483647,
       lcd_panel_hfp = 10, lcd_panel_vsync = 2, lcd_panel_vbp = 2, lcd_panel_vadr = 320,
       lcd_panel_vfp = 4\<rparr> settled hw0)) =
     [Wr LTDC_SSCR (macro stm32f429 LTDC_VSH 1 OR macro stm32f429 LTDC_HSW 9),
      Wr LTDC_BPCR (macro stm32f429 LTDC_AVBP 3 OR macro stm32f429 LTDC_AHBP 29),
      Wr LTDC_AWCR
        (macro stm32f429 LTDC_AAH 323 OR macro stm32f429 LTDC_AAW (- 2147483620)),
      Wr LTDC_TWCR
        (macro stm32f429 LTDC_TOTALH 327 OR macro stm32f429 LTDC_TOTALW (- 2147483610))] \<and>
   (- 2147483620 :: int) < 29 \<and>
   macro stm32f429 LTDC_AHBP 29 = 0x001D0000 \<and>
   macro stm32f429 LTDC_AAW (- 2147483620) = 0x001C0000"
proof -
  have "macro stm32f429 LTDC_AHBP 29 = 0x001D0000"
    "macro stm32f429 LTDC_AAW (- 2147483620) = 0x001C0000"
    by (simp_all add: stm32f429_def)
  then show ?thesis
    by (simp add: rgb_timings_bus hw0_def c_int_def)
qed

text \<open>
  Claim C4, as the code has it. For a descriptor whose eight values are positive and whose
  total width and total height each fit a 32-bit \<^verbatim>\<open>int\<close> (at most \<open>2^31 - 1\<close>), the first four
  accesses of the routine write, for each axis, sync - 1, sync + back porch - 1,
  sync + back porch + active - 1 and sync + back porch + active + front porch - 1. The four
  values of an axis increase strictly, and each is the one before plus the next width.
\<close>

theorem derived_timing_registers:
  assumes "0 < lcd_panel_hsync t" "0 < lcd_panel_hbp t" "0 < lcd_panel_hadr t"
    "0 < lcd_panel_hfp t" "0 < lcd_panel_vsync t" "0 < lcd_panel_vbp t"
    "0 < lcd_panel_vadr t" "0 < lcd_panel_vfp t"
    and "lcd_panel_hsync t + lcd_panel_hbp t + lcd_panel_hadr t + lcd_panel_hfp t
           \<le> 2147483647"
    and "lcd_panel_vsync t + lcd_panel_vbp t + lcd_panel_vadr t + lcd_panel_vfp t
           \<le> 2147483647"
  shows
    "(let h1 = lcd_panel_hsync t - 1;
          h2 = lcd_panel_hsync t + lcd_panel_hbp t - 1;
          h3 = lcd_panel_hsync t + lcd_panel_hbp t + lcd_panel_hadr t - 1;
          h4 = lcd_panel_hsync t + lcd_panel_hbp t + lcd_panel_hadr t + lcd_panel_hfp t - 1;
          v1 = lcd_panel_vsync t - 1;
          v2 = lcd_panel_vsync t + lcd_panel_vbp t - 1;
          v3 = lcd_panel_vsync t + lcd_panel_vbp t + lcd_panel_vadr t - 1;
          v4 = lcd_panel_vsync t + lcd_panel_vbp t + lcd_panel_vadr t + lcd_panel_vfp t - 1
      in take 4 (drop (length (bus s)) (bus (rgb_timings m t dev s))) =
           [Wr LTDC_SSCR (macro m LTDC_VSH v1 OR macro m LTDC_HSW h1),
            Wr LTDC_BPCR (macro m LTDC_AVBP v2 OR macro m LTDC_AHBP h2),
            Wr LTDC_AWCR (macro m LTDC_AAH v3 OR macro m LTDC_AAW h3),
            Wr LTDC_TWCR (macro m LTDC_TOTALH v4 OR macro m LTDC_TOTALW h4)] \<and>
         h1 < h2 \<and> h2 < h3 \<and> h3 < h4 \<and> v1 < v2 \<and> v2 < v3 \<and> v3 < v4 \<and>
         h2 = h1 + lcd_panel_hbp t \<and> h3 = h2 + lcd_panel_hadr t \<and>
         h4 = h3 + lcd_panel_hfp t \<and>
         v2 = v1 + lcd_panel_vbp t \<and> v3 = v2 + lcd_panel_vadr t \<and>
         v4 = v3 + lcd_panel_vfp t)"
proof -
  have "c_int (lcd_panel_hsync t - 1) = lcd_panel_hsync t - 1"
    "c_int (lcd_panel_hsync t + lcd_panel_hbp t - 1) = lcd_panel_hsync t + lcd_panel_hbp t - 1"
    "c_int (lcd_panel_hsync t + lcd_panel_hbp t + lcd_panel_hadr t - 1) =
       lcd_panel_hsync t + lcd_panel_hbp t + lcd_panel_hadr t - 1"
    "c_int (lcd_panel_hsync t + lcd_panel_hbp t + lcd_panel_hadr t + lcd_panel_hfp t - 1) =
       lcd_panel_hsync t + lcd_panel_hbp t + lcd_panel_hadr t + lcd_panel_hfp t - 1"
    "c_int (lcd_panel_vsync t - 1) = lcd_panel_vsync t - 1"
    "c_int (lcd_panel_vsync t + lcd_panel_vbp t - 1) = lcd_panel_vsync t + lcd_panel_vbp t - 1"
    "c_int (lcd_panel_vsync t + lcd_panel_vbp t + lcd_panel_vadr t - 1) =
       lcd_panel_vsync t + lcd_panel_vbp t + lcd_panel_vadr t - 1"
    "c_int (lcd_panel_vsync t + lcd_panel_vbp t + lcd_panel_vadr t + lcd_panel_vfp t - 1) =
       lcd_panel_vsync t + lcd_panel_vbp t + lcd_panel_vadr t + lcd_panel_vfp t - 1"
    using assms by (auto intro!: c_int_exact)
  then show ?thesis
    using assms by (simp add: rgb_timings_bus Let_def)
qed

theorem derived_timing_registers_witness:
  "take 4 (bus (init_rgb_timings stm32f429 settled hw0)) =
     [Wr LTDC_SSCR (macro stm32f429 LTDC_VSH 1 OR macro stm32f429 LTDC_HSW 9),
      Wr LTDC_BPCR (macro stm32f429 LTDC_AVBP 3 OR macro stm32f429 LTDC_AHBP 29),
      Wr LTDC_AWCR (macro stm32f429 LTDC_AAH 323 OR macro stm32f429 LTDC_AAW 269),
      Wr LTDC_TWCR (macro stm32f429 LTDC_TOTALH 327 OR macro stm32f429 LTDC_TOTALW 279)]"
proof -
  have t: "lcd_panel stm32f429 =
      \<lparr>lcd_panel_hsync = 10, lcd_panel_hbp = 20, lcd_panel_hadr = 240, lcd_panel_hfp = 10,
       lcd_panel_vsync = 2, lcd_panel_vbp = 2, lcd_panel_vadr = 320, lcd_panel_vfp = 4\<rparr>"
    by (simp add: lcd_panel_def stm32f429_def)
  from derived_timing_registers [of "lcd_panel stm32f429" hw0 stm32f429 settled]
  show ?thesis
    unfolding t init_rgb_timings_def by (simp add: hw0_def Let_def)
qed

section \<open>C5: the panel's descriptor, end to end\<close>

text \<open>
  Claim C5. For the descriptor hsync 10, hbp 20, hactive 240, hfp 10, vsync 2, vbp 2,
  vactive 320, vfp 4 the total width is 280 and the total height 328; \<^verbatim>\<open>LTDC_TWCR\<close> gets
  each minus one. The window of the layer goes from 30 to 269 horizontally and from 4 to
  323 vertically. This is the descriptor of \<^verbatim>\<open>init_rgb_timings\<close> when the frame buffer is
  240 by 320.
\<close>

theorem end_to_end_timing:
  "(let t = \<lparr>lcd_panel_hsync = 10, lcd_panel_hbp = 20, lcd_panel_hadr = 240,
             lcd_panel_hfp = 10, lcd_panel_vsync = 2, lcd_panel_vbp = 2,
             lcd_panel_vadr = 320, lcd_panel_vfp = 4\<rparr>
    in lcd_panel_hsync t + lcd_panel_hbp t + lcd_panel_hadr t + lcd_panel_hfp t = 280 \<and>
       lcd_panel_vsync t + lcd_panel_vbp t + lcd_panel_vadr t + lcd_panel_vfp t = 328 \<and>
       regs (rgb_timings m t dev s) LTDC_TWCR =
         (macro m LTDC_TOTALH (328 - 1) OR macro m LTDC_TOTALW (280 - 1)) \<and>
       regs (rgb_timings m t dev s) (LTDC_LWHPCR LTDC_LAYER1) =
         (macro m LTDC_WHSTPOS 30 OR macro m LTDC_WHSPPOS 269) \<and>
       regs (rgb_timings m t dev s) (LTDC_LWVPCR LTDC_LAYER1) =
         (macro m LTDC_WVSTPOS 4 OR macro m LTDC_WVSPPOS 323) \<and>
       (ION_FRAMEBUFFER_WIDTH m = 240 \<and> ION_FRAMEBUFFER_HEIGHT m = 320 \<longrightarrow>
          init_rgb_timings m dev s = rgb_timings m t dev s))"
  by (simp add: rgb_timings_regs Let_def init_rgb_timings_def lcd_panel_def c_int_def)

theorem end_to_end_timing_witness:
  "regs (init_rgb_timings stm32f429 settled hw0) LTDC_TWCR =
     (macro stm32f429 LTDC_TOTALH 327 OR macro stm32f429 LTDC_TOTALW 279) \<and>
   regs (init_rgb_timings stm32f429 settled hw0) (LTDC_LWHPCR LTDC_LAYER1) =
     (macro stm32f429 LTDC_WHSTPOS 30 OR macro stm32f429 LTDC_WHSPPOS 269) \<and>
   regs (init_rgb_timings stm32f429 settled hw0) (LTDC_LWVPCR LTDC_LAYER1) =
     (macro stm32f429 LTDC_WVSTPOS 4 OR macro stm32f429 LTDC_WVSPPOS 323)"
proof -
  have "ION_FRAMEBUFFER_WIDTH stm32f429 = 240 \<and> ION_FRAMEBUFFER_HEIGHT stm32f429 = 320"
    by (simp add: stm32f429_def)
  with end_to_end_timing [of stm32f429 settled hw0] show ?thesis
    by (simp add: Let_def)
qed

section \<open>C6: the order of the timing registers\<close>

text \<open>
  Claim C6. The first seven bus accesses of \<^verbatim>\<open>init_rgb_timings\<close> are, in this order, the
  writes of \<^verbatim>\<open>LTDC_SSCR\<close> (sync width), \<^verbatim>\<open>LTDC_BPCR\<close> (back porch), \<^verbatim>\<open>LTDC_AWCR\<close> (active
  area) and \<^verbatim>\<open>LTDC_TWCR\<close> (total size), the read and the write that set the polarity bit
  \<^verbatim>\<open>LTDC_PCPOL\<close> in \<^verbatim>\<open>LTDC_GCR\<close>, and the write of the background colour to \<^verbatim>\<open>LTDC_BCCR\<close>.
  None of the four timing registers nor \<^verbatim>\<open>LTDC_BCCR\<close> is written again; \<^verbatim>\<open>LTDC_GCR\<close> is
  written once more, last of all, to enable the controller.
\<close>

theorem timing_registers_order:
  "(let t = lcd_panel m;
        g = dev (length (bus s) + 4) LTDC_GCR (regs s LTDC_GCR);
        es = drop (length (bus s)) (bus (init_rgb_timings m dev s))
    in take 7 es =
         [Wr LTDC_SSCR
            (macro m LTDC_VSH (c_int (lcd_panel_vsync t - 1)) OR
             macro m LTDC_HSW (c_int (lcd_panel_hsync t - 1))),
          Wr LTDC_BPCR
            (macro m LTDC_AVBP (c_int (lcd_panel_vsync t + lcd_panel_vbp t - 1)) OR
             macro m LTDC_AHBP (c_int (lcd_panel_hsync t + lcd_panel_hbp t - 1))),
          Wr LTDC_AWCR
            (macro m LTDC_AAH (c_int (lcd_panel_vsync t + lcd_panel_vbp t + lcd_panel_vadr t - 1)) OR
             macro m LTDC_AAW (c_int (lcd_panel_hsync t + lcd_panel_hbp t + lcd_panel_hadr t - 1))),
          Wr LTDC_TWCR
            (macro m LTDC_TOTALH
               (c_int (lcd_panel_vsync t + lcd_panel_vbp t + lcd_panel_vadr t + lcd_panel_vfp t - 1)) OR
             macro m LTDC_TOTALW
               (c_int (lcd_panel_hsync t + lcd_panel_hbp t + lcd_panel_hadr t + lcd_panel_hfp t - 1))),
          Rd LTDC_GCR g,
          Wr LTDC_GCR (g OR cst m LTDC_PCPOL),
          Wr LTDC_BCCR 0x00FF00FF] \<and>
       written es =
         [LTDC_SSCR, LTDC_BPCR, LTDC_AWCR, LTDC_TWCR, LTDC_GCR, LTDC_BCCR,
          LTDC_LWHPCR LTDC_LAYER1, LTDC_LWVPCR LTDC_LAYER1, LTDC_LPFCR LTDC_LAYER1,
          LTDC_LCFBAR LTDC_LAYER1, LTDC_LCFBLR LTDC_LAYER1, LTDC_LCFBLNR LTDC_LAYER1,
          LTDC_LCR LTDC_LAYER1, LTDC_SRCR, LTDC_GCR])"
  by (simp add: init_rgb_timings_def rgb_timings_bus Let_def)

section \<open>C7: the layer, the reload and the enable\<close>

text \<open>
  After the reload request the routine reads \<^verbatim>\<open>LTDC_GCR\<close> and writes it back with the enable
  bit. It reads no other register in the whole run: nothing confirms that the reload was
  accepted.
\<close>

theorem reload_confirmation_counterexample:
  "drop 14 (bus (init_rgb_timings stm32f429 settled hw0)) =
     [Wr LTDC_SRCR 1, Rd LTDC_GCR 0x10000000, Wr LTDC_GCR 0x10000001] \<and>
   polled (bus (init_rgb_timings stm32f429 settled hw0)) = [LTDC_GCR, LTDC_GCR]"
  by (simp add: settled_timings_run)

text \<open>
  Claim C7, as the code has it. After the background colour, \<^verbatim>\<open>init_rgb_timings\<close> writes the
  window positions, the pixel format, the base address, the line length and pitch and the
  line count of layer 1, then enables the layer, then requests the reload with \<^verbatim>\<open>LTDC_IMR\<close>
  in \<^verbatim>\<open>LTDC_SRCR\<close>, and last reads \<^verbatim>\<open>LTDC_GCR\<close> and writes it back with \<^verbatim>\<open>LTDC_LTDCEN\<close>. The
  reload request comes right before the enable. The only register the routine reads is
  \<^verbatim>\<open>LTDC_GCR\<close>: the acceptance of the reload is not checked.
\<close>

theorem layer_before_enable:
  "(let t = lcd_panel m;
        g = dev (length (bus s) + 15) LTDC_GCR
              (dev (length (bus s) + 4) LTDC_GCR (regs s LTDC_GCR) OR cst m LTDC_PCPOL);
        es = drop (length (bus s)) (bus (init_rgb_timings m dev s))
    in drop 7 es =
         [Wr (LTDC_LWHPCR LTDC_LAYER1)
            (macro m LTDC_WHSTPOS (c_int (lcd_panel_hsync t + lcd_panel_hbp t)) OR
             macro m LTDC_WHSPPOS (c_int (lcd_panel_hsync t + lcd_panel_hbp t + lcd_panel_hadr t - 1))),
          Wr (LTDC_LWVPCR LTDC_LAYER1)
            (macro m LTDC_WVSTPOS (c_int (lcd_panel_vsync t + lcd_panel_vbp t)) OR
             macro m LTDC_WVSPPOS (c_int (lcd_panel_vsync t + lcd_panel_vbp t + lcd_panel_vadr t - 1))),
          Wr (LTDC_LPFCR LTDC_LAYER1) (cst m LTDC_PF_L8),
          Wr (LTDC_LCFBAR LTDC_LAYER1) (ION_FRAMEBUFFER_ADDRESS m),
          Wr (LTDC_LCFBLR LTDC_LAYER1)
            (macro m LTDC_CFBLL (ION_FRAMEBUFFER_WIDTH m + 3) OR
             macro m LTDC_CFBP (ION_FRAMEBUFFER_WIDTH m)),
          Wr (LTDC_LCFBLNR LTDC_LAYER1) (macro m LTDC_CFBLNR (ION_FRAMEBUFFER_HEIGHT m)),
          Wr (LTDC_LCR LTDC_LAYER1) (cst m LTDC_LEN),
          Wr LTDC_SRCR (cst m LTDC_IMR),
          Rd LTDC_GCR g,
          Wr LTDC_GCR (g OR cst m LTDC_LTDCEN)] \<and>
       polled es = [LTDC_GCR, LTDC_GCR])"
  by (simp add: init_rgb_timings_def rgb_timings_bus Let_def)

section \<open>C8: the order of a write\<close>

lemma late_txe_run:
  "spi_5_write stm32f429 late_txe [0x2A] hw0 =
     Some \<lparr>regs = (regs hw0)(SPI_DR SPI5 := 0x2A),
           bus = [Rd (SPI_SR SPI5) 0, Wr (SPI_DR SPI5) 0x2A, Rd (SPI_SR SPI5) 2,
                  Rd (SPI_SR SPI5) 2]\<rparr>"
  by (simp add: spi_5_write_def spi_wait_bsy.simps spi_wait_txe.simps reg_value_def
      reg_read_def reg_write_def late_txe_def hw0_def stm32f429_def)

text \<open>
  On \<open>late_txe\<close> the port is idle and its transmit buffer not yet empty. The routine loads
  the byte right after the wait for \<^verbatim>\<open>SPI_BSY\<close>, before any poll has seen \<^verbatim>\<open>SPI_TXE\<close>: the log
  is not one of the spec.
\<close>

theorem write_order_counterexample:
  "map_option bus (spi_5_write stm32f429 late_txe [0x2A] hw0) =
     Some [Rd (SPI_SR SPI5) 0, Wr (SPI_DR SPI5) 0x2A, Rd (SPI_SR SPI5) 2, Rd (SPI_SR SPI5) 2] \<and>
   \<not> spec_write_trace stm32f429 [0x2A]
       [Rd (SPI_SR SPI5) 0, Wr (SPI_DR SPI5) 0x2A, Rd (SPI_SR SPI5) 2, Rd (SPI_SR SPI5) 2]"
proof -
  have "\<not> spec_write_trace stm32f429 [0x2A]
       [Rd (SPI_SR SPI5) 0, Wr (SPI_DR SPI5) 0x2A, Rd (SPI_SR SPI5) 2, Rd (SPI_SR SPI5) 2]"
    by (simp add: spec_write_trace_def spi_idle_def spi_ready_def stm32f429_def)
  then show ?thesis by (simp add: late_txe_run)
qed

text \<open>
  Claim C8, as the code has it. When \<^verbatim>\<open>spi_5_write\<close> returns, its bus accesses are a wait
  until \<^verbatim>\<open>SPI_BSY\<close> is clear, then for each byte of the buffer, in order, the write of the
  byte to \<^verbatim>\<open>SPI_DR\<close> followed by a wait until \<^verbatim>\<open>SPI_TXE\<close> is set, then a wait until \<^verbatim>\<open>SPI_BSY\<close>
  is clear, and nothing else. So every byte is loaded once, each byte but the first right
  after a poll that saw \<^verbatim>\<open>SPI_TXE\<close>, the first right after the poll that saw the port idle.
  The routine does return when, from some bus access on, the port reads idle with an empty
  transmit buffer.
\<close>

theorem write_order:
  "(spi_5_write m dev data s = Some s' \<longrightarrow>
      (\<exists>es. bus s' = bus s @ es \<and> write_trace m data es)) \<and>
   ((\<exists>k. \<forall>n\<ge>k. dev n (SPI_SR SPI5) (regs s (SPI_SR SPI5)) AND cst m SPI_BSY = 0 \<and>
                  dev n (SPI_SR SPI5) (regs s (SPI_SR SPI5)) AND cst m SPI_TXE \<noteq> 0) \<longrightarrow>
      (\<exists>s'. spi_5_write m dev data s = Some s'))"
  using spi_5_write_trace [of m dev data s s'] spi_5_write_returns [of _ dev s m data]
  by blast

lemma settled_run:
  "spi_5_write stm32f429 settled [0x11, 0x29] hw0 =
     Some \<lparr>regs = (regs hw0)(SPI_DR SPI5 := 0x29),
           bus = [Rd (SPI_SR SPI5) 2, Wr (SPI_DR SPI5) 0x11, Rd (SPI_SR SPI5) 2,
                  Wr (SPI_DR SPI5) 0x29, Rd (SPI_SR SPI5) 2, Rd (SPI_SR SPI5) 2]\<rparr>"
  by (simp add: spi_5_write_def spi_wait_bsy.simps spi_wait_txe.simps reg_value_def
      reg_read_def reg_write_def settled_def hw0_def stm32f429_def)

theorem write_order_witness:
  "spi_5_write stm32f429 settled [0x11, 0x29] hw0 =
     Some \<lparr>regs = (regs hw0)(SPI_DR SPI5 := 0x29),
           bus = [Rd (SPI_SR SPI5) 2, Wr (SPI_DR SPI5) 0x11, Rd (SPI_SR SPI5) 2,
                  Wr (SPI_DR SPI5) 0x29, Rd (SPI_SR SPI5) 2, Rd (SPI_SR SPI5) 2]\<rparr> \<and>
   write_trace stm32f429 [0x11, 0x29]
      [Rd (SPI_SR SPI5) 2, Wr (SPI_DR SPI5) 0x11, Rd (SPI_SR SPI5) 2,
       Wr (SPI_DR SPI5) 0x29, Rd (SPI_SR SPI5) 2, Rd (SPI_SR SPI5) 2] \<and>
   (\<exists>s'. spi_5_write stm32f429 settled [0x07] hw0 = Some s')"
proof -
  let ?s' = "\<lparr>regs = (regs hw0)(SPI_DR SPI5 := 0x29),
        bus = [Rd (SPI_SR SPI5) 2, Wr (SPI_DR SPI5) 0x11, Rd (SPI_SR SPI5) 2,
               Wr (SPI_DR SPI5) 0x29, Rd (SPI_SR SPI5) 2, Rd (SPI_SR SPI5) 2]\<rparr>"
  have run: "spi_5_write stm32f429 settled [0x11, 0x29] hw0 = Some ?s'"
    by (rule settled_run)
  with write_order [of stm32f429 settled "[0x11, 0x29]" hw0 ?s']
  have "\<exists>es. bus ?s' = bus hw0 @ es \<and> write_trace stm32f429 [0x11, 0x29] es"
    by blast
  then have trace: "write_trace stm32f429 [0x11, 0x29] (bus ?s')"
    by (simp add: hw0_def)
  have "\<forall>n\<ge>0. settled n (SPI_SR SPI5) (regs hw0 (SPI_SR SPI5)) AND cst stm32f429 SPI_BSY = 0 \<and>
           settled n (SPI_SR SPI5) (regs hw0 (SPI_SR SPI5)) AND cst stm32f429 SPI_TXE \<noteq> 0"
    by (simp add: hw0_def settled_def stm32f429_def)
  with write_order [of stm32f429 settled "[0x07]" hw0]
  have "\<exists>s'. spi_5_write stm32f429 settled [0x07] hw0 = Some s'"
    by blast
  with run trace show ?thesis by simp
qed

section \<open>C9: the format of the layer\<close>

text \<open>
  Claim C9. After \<^verbatim>\<open>init_rgb_timings\<close> the pixel format register of layer 1 holds
  \<^verbatim>\<open>LTDC_PF_L8\<close>, its line length register \<^verbatim>\<open>LTDC_CFBLL(ION_FRAMEBUFFER_WIDTH + 3)\<close> with the
  pitch \<^verbatim>\<open>LTDC_CFBP(ION_FRAMEBUFFER_WIDTH)\<close>, one byte for a pixel and not the four of the
  comment beside it, and its line count register \<^verbatim>\<open>LTDC_CFBLNR(ION_FRAMEBUFFER_HEIGHT)\<close>.
\<close>

theorem layer_format:
  "regs (init_rgb_timings m dev s) (LTDC_LPFCR LTDC_LAYER1) = cst m LTDC_PF_L8 \<and>
   regs (init_rgb_timings m dev s) (LTDC_LCFBLR LTDC_LAYER1) =
     (macro m LTDC_CFBLL (ION_FRAMEBUFFER_WIDTH m + 3) OR
      macro m LTDC_CFBP (ION_FRAMEBUFFER_WIDTH m)) \<and>
   regs (init_rgb_timings m dev s) (LTDC_LCFBLNR LTDC_LAYER1) =
     macro m LTDC_CFBLNR (ION_FRAMEBUFFER_HEIGHT m)"
  by (simp add: init_rgb_timings_def rgb_timings_regs)

section \<open>C10: the two pins\<close>

lemma set_one_bit:
  "bit ((w AND NOT (field_mask (ODR k))) OR push_bit (fst (ODR k)) (of_bool b) :: 32 word) i
     \<longleftrightarrow> (if i = k then b \<and> k < 32 else bit w i)"
  by (auto simp: ODR_def field_mask_def bit_simps dest: bit_imp_le_length)

lemma REGISTER_SET_VALUE_regs:
  "regs (REGISTER_SET_VALUE dev r f v s) =
     (regs s)(r := (reg_value dev r s AND NOT (field_mask f)) OR push_bit (fst f) v)"
  by (simp add: REGISTER_SET_VALUE_def)

lemma REGISTER_SET_VALUE_bus:
  "bus (REGISTER_SET_VALUE dev r f v s) =
     bus s @ [Rd r (reg_value dev r s),
              Wr r ((reg_value dev r s AND NOT (field_mask f)) OR push_bit (fst f) v)]"
  by (simp add: REGISTER_SET_VALUE_def)

text \<open>
  Claim C10. \<^verbatim>\<open>gpio_c2_write\<close> writes one register, \<^verbatim>\<open>GPIO_ODR(GPIOC)\<close>: bit 2 of the new
  value is the argument and every other bit is the bit that was read. \<^verbatim>\<open>gpio_d13_write\<close>
  does the same with bit 13 of \<^verbatim>\<open>GPIO_ODR(GPIOD)\<close>. No other register changes. When the
  output data register reads back what was last written, as a plain register does, every
  other bit is the bit the register held.
\<close>

theorem gpio_pin_writes:
  "(\<forall>i. bit (regs (gpio_c2_write dev b s) (GPIO_ODR GPIOC)) i \<longleftrightarrow>
         (if i = 2 then b else bit (reg_value dev (GPIO_ODR GPIOC) s) i)) \<and>
   (\<forall>r. r \<noteq> GPIO_ODR GPIOC \<longrightarrow> regs (gpio_c2_write dev b s) r = regs s r) \<and>
   written (drop (length (bus s)) (bus (gpio_c2_write dev b s))) = [GPIO_ODR GPIOC] \<and>
   (\<forall>i. bit (regs (gpio_d13_write dev b s) (GPIO_ODR GPIOD)) i \<longleftrightarrow>
         (if i = 13 then b else bit (reg_value dev (GPIO_ODR GPIOD) s) i)) \<and>
   (\<forall>r. r \<noteq> GPIO_ODR GPIOD \<longrightarrow> regs (gpio_d13_write dev b s) r = regs s r) \<and>
   written (drop (length (bus s)) (bus (gpio_d13_write dev b s))) = [GPIO_ODR GPIOD] \<and>
   ((\<forall>n v. dev n (GPIO_ODR GPIOC) v = v) \<longrightarrow>
      (\<forall>i. bit (regs (gpio_c2_write dev b s) (GPIO_ODR GPIOC)) i \<longleftrightarrow>
            (if i = 2 then b else bit (regs s (GPIO_ODR GPIOC)) i))) \<and>
   ((\<forall>n v. dev n (GPIO_ODR GPIOD) v = v) \<longrightarrow>
      (\<forall>i. bit (regs (gpio_d13_write dev b s) (GPIO_ODR GPIOD)) i \<longleftrightarrow>
            (if i = 13 then b else bit (regs s (GPIO_ODR GPIOD)) i)))"
  by (simp add: gpio_c2_write_def gpio_d13_write_def REGISTER_SET_VALUE_regs
      REGISTER_SET_VALUE_bus set_one_bit reg_value_def)

theorem gpio_pin_writes_witness:
  "regs (gpio_c2_write settled True hw0) (GPIO_ODR GPIOC) = 4 \<and>
   regs (gpio_d13_write settled True hw0) (GPIO_ODR GPIOD) = 0x2000 \<and>
   regs (gpio_c2_write settled True hw0) (GPIO_ODR GPIOD) = 0 \<and>
   (\<forall>i. bit (regs (gpio_c2_write settled True hw0) (GPIO_ODR GPIOC)) i \<longleftrightarrow> i = 2) \<and>
   (\<forall>i. bit (regs (gpio_d13_write settled False hw0) (GPIO_ODR GPIOD)) i \<longleftrightarrow> False)"
proof -
  have plain: "\<forall>n v. settled n (GPIO_ODR GPIOC) v = v" "\<forall>n v. settled n (GPIO_ODR GPIOD) v = v"
    by (simp_all add: settled_def)
  have vals: "regs (gpio_c2_write settled True hw0) (GPIO_ODR GPIOC) = 4"
    "regs (gpio_d13_write settled True hw0) (GPIO_ODR GPIOD) = 0x2000"
    "regs (gpio_c2_write settled True hw0) (GPIO_ODR GPIOD) = 0"
    by (simp_all add: gpio_c2_write_def gpio_d13_write_def REGISTER_SET_VALUE_def ODR_def
        field_mask_def reg_value_def settled_def hw0_def)
  from gpio_pin_writes [of settled True hw0] plain
  have c2: "\<forall>i. bit (regs (gpio_c2_write settled True hw0) (GPIO_ODR GPIOC)) i \<longleftrightarrow>
      (if i = 2 then True else bit (regs hw0 (GPIO_ODR GPIOC)) i)"
    by blast
  from gpio_pin_writes [of settled False hw0] plain
  have d13: "\<forall>i. bit (regs (gpio_d13_write settled False hw0) (GPIO_ODR GPIOD)) i \<longleftrightarrow>
      (if i = 13 then False else bit (regs hw0 (GPIO_ODR GPIOD)) i)"
    by blast
  from c2 d13 vals show ?thesis by (simp add: hw0_def)
qed

end
